theory Spec2Isabelle
  imports Complex_Main "HOL-Library.AList"
begin

section \<open>JavaScript numbers\<close>

text \<open>
  A JavaScript \<^verbatim>\<open>number\<close> is an IEEE 754 binary64 value: NaN, the two infinities, or a
  finite double, which is a rational number. The sign of zero is not kept (\<open>Num 0\<close> stands
  for both zeros); none of the comparisons, \<^verbatim>\<open>Math.min\<close>/\<^verbatim>\<open>Math.max\<close> results or
  truthiness tests below depends on it.
\<close>

datatype jsnum = NaN | NInf | Num rat | PInf

text \<open>\<open>ilog2 n\<close> is the position of the highest set bit of a positive integer.\<close>

fun ilog2 :: "int \<Rightarrow> int" where
  "ilog2 n = (if n < 2 then 0 else ilog2 (n div 2) + 1)"

declare ilog2.simps [simp del]

definition pow2 :: "int \<Rightarrow> rat" where
  "pow2 e = (if 0 \<le> e then 2 ^ nat e else 1 / 2 ^ nat (- e))"

text \<open>\<open>expo a q\<close> is the binary exponent of the positive fraction \<open>a / q\<close>:
  the integer \<open>k\<close> with \<open>2 ^ k \<le> a / q < 2 ^ (k + 1)\<close>.\<close>

definition expo :: "int \<Rightarrow> int \<Rightarrow> int" where
  "expo a q = (let d = ilog2 a - ilog2 q
     in if q * 2 ^ nat d \<le> a * 2 ^ nat (- d) then d else d - 1)"

text \<open>The integer nearest to \<open>n / d\<close> (for \<open>d > 0\<close>), a tie going to the even one.\<close>

definition round_half_even :: "int \<Rightarrow> int \<Rightarrow> int" where
  "round_half_even n d = (let f = n div d; r = n mod d
     in if 2 * r < d then f else if d < 2 * r then f + 1 else if even f then f else f + 1)"

text \<open>
  \<open>fl x\<close> rounds the exact result \<open>x\<close> of an operation to binary64, to nearest with ties to
  even: a 53-bit significand \<open>m\<close> and an exponent \<open>e\<close> that is at least \<open>-1074\<close> (below the
  normal range the spacing stays \<open>2 ^ -1074\<close>), and an infinity when the rounded value
  reaches \<open>2 ^ 1024\<close>.
\<close>

definition fl :: "rat \<Rightarrow> jsnum" where
  "fl x = (let (p, q) = quotient_of x; a = \<bar>p\<bar> in
     if p = 0 then Num 0 else
     let e = max (expo a q - 52) (- 1074);
         m = round_half_even (a * 2 ^ nat (- e)) (q * 2 ^ nat e)
     in if 971 < e \<or> (e = 971 \<and> 2 ^ 53 \<le> m) then (if 0 < p then PInf else NInf)
        else Num (of_int (sgn p * m) * pow2 e))"

text \<open>The relational operators \<^verbatim>\<open><=\<close> and \<^verbatim>\<open><\<close>: every comparison with NaN is false.\<close>

fun num_le :: "jsnum \<Rightarrow> jsnum \<Rightarrow> bool" where
  "num_le NaN _ = False"
| "num_le _ NaN = False"
| "num_le NInf _ = True"
| "num_le _ PInf = True"
| "num_le (Num a) (Num b) = (a \<le> b)"
| "num_le PInf _ = False"
| "num_le (Num a) NInf = False"

fun num_lt :: "jsnum \<Rightarrow> jsnum \<Rightarrow> bool" where
  "num_lt NaN _ = False"
| "num_lt _ NaN = False"
| "num_lt (Num a) (Num b) = (a < b)"
| "num_lt PInf _ = False"
| "num_lt _ NInf = False"
| "num_lt NInf _ = True"
| "num_lt (Num a) PInf = True"

text \<open>\<^verbatim>\<open>a >= b\<close> is \<open>num_le b a\<close> and \<^verbatim>\<open>a > b\<close> is \<open>num_lt b a\<close>.\<close>

text \<open>Truthiness of a number: NaN and zero are falsy. \<open>num_or a b\<close> is \<^verbatim>\<open>a || b\<close>.\<close>

fun truthy :: "jsnum \<Rightarrow> bool" where
  "truthy NaN = False"
| "truthy (Num a) = (a \<noteq> 0)"
| "truthy _ = True"

definition num_or :: "jsnum \<Rightarrow> jsnum \<Rightarrow> jsnum" where
  "num_or a b = (if truthy a then a else b)"

text \<open>\<^verbatim>\<open>Math.min\<close> and \<^verbatim>\<open>Math.max\<close> of two arguments: NaN if either is NaN.\<close>

definition Math_min :: "jsnum \<Rightarrow> jsnum \<Rightarrow> jsnum" where
  "Math_min a b = (if a = NaN \<or> b = NaN then NaN else if num_le a b then a else b)"

definition Math_max :: "jsnum \<Rightarrow> jsnum \<Rightarrow> jsnum" where
  "Math_max a b = (if a = NaN \<or> b = NaN then NaN else if num_le a b then b else a)"


fun num_add :: "jsnum \<Rightarrow> jsnum \<Rightarrow> jsnum" where
  "num_add NaN _ = NaN"
| "num_add _ NaN = NaN"
| "num_add (Num a) (Num b) = fl (a + b)"
| "num_add PInf NInf = NaN"
| "num_add NInf PInf = NaN"
| "num_add PInf _ = PInf"
| "num_add NInf _ = NInf"
| "num_add (Num a) b = b"


text \<open>The sign of a non-NaN number: \<open>-1\<close>, \<open>0\<close> or \<open>1\<close>.\<close>

fun num_sgn :: "jsnum \<Rightarrow> int" where
  "num_sgn NaN = 0"
| "num_sgn NInf = - 1"
| "num_sgn PInf = 1"
| "num_sgn (Num a) = (if a < 0 then - 1 else if a = 0 then 0 else 1)"

fun num_mul :: "jsnum \<Rightarrow> jsnum \<Rightarrow> jsnum" where
  "num_mul NaN _ = NaN"
| "num_mul _ NaN = NaN"
| "num_mul (Num a) (Num b) = fl (a * b)"
| "num_mul a b = (let s = num_sgn a * num_sgn b
     in if s = 0 then NaN else if 0 < s then PInf else NInf)"

text \<open>Division. A zero divisor is read as \<open>+0\<close>, since the sign of zero is not kept; every
  division of the code modelled below has the constant divisor 100.\<close>

fun num_div :: "jsnum \<Rightarrow> jsnum \<Rightarrow> jsnum" where
  "num_div NaN _ = NaN"
| "num_div _ NaN = NaN"
| "num_div (Num a) (Num b) =
     (if b = 0 then (if a = 0 then NaN else if 0 < a then PInf else NInf) else fl (a / b))"
| "num_div (Num a) _ = Num 0"
| "num_div a (Num b) = (if (0 \<le> b) = (a = PInf) then PInf else NInf)"
| "num_div _ _ = NaN"

section \<open>JavaScript strings\<close>

text \<open>
  Strings are lists of 8-bit characters. \<^verbatim>\<open>toUpperCase\<close> and the case-insensitive
  regular-expression flag act on the letters a to z; the other characters of this range
  are left as they are (no character outside a-z is turned into an ASCII capital that
  occurs in the literals compared below).
\<close>

definition toUpperChar :: "char \<Rightarrow> char" where
  "toUpperChar c =
     (case map_of (zip ''abcdefghijklmnopqrstuvwxyz'' ''ABCDEFGHIJKLMNOPQRSTUVWXYZ'') c of
        Some u \<Rightarrow> u | None \<Rightarrow> c)"

definition toLowerChar :: "char \<Rightarrow> char" where
  "toLowerChar c =
     (case map_of (zip ''ABCDEFGHIJKLMNOPQRSTUVWXYZ'' ''abcdefghijklmnopqrstuvwxyz'') c of
        Some l \<Rightarrow> l | None \<Rightarrow> c)"

definition toUpperCase :: "string \<Rightarrow> string" where
  "toUpperCase s = map toUpperChar s"

text \<open>Two strings are equal up to the case of their letters.\<close>

definition equalsIgnoreCase :: "string \<Rightarrow> string \<Rightarrow> bool" where
  "equalsIgnoreCase a b = list_all2 (\<lambda>x y. toLowerChar x = toLowerChar y) a b"

text \<open>What an injected asynchronous callback does: its promise resolves or rejects.\<close>

datatype outcome = Resolved | Rejected

section \<open>BurnNFTModal\<close>

text \<open>\<^verbatim>\<open>interface NFTData\<close> of BurnNFTModal and TransferNFTModal (the same fields in both).\<close>

record NFTData =
  nft_id :: string
  nft_name :: string
  nft_image :: "string option"
  nft_collection :: string
  nft_tokenId :: jsnum

definition BURN_GAS_ESTIMATE :: jsnum where
  "BURN_GAS_ESTIMATE = fl (3 / 10000)"

definition requiredConfirmText :: string where
  "requiredConfirmText = ''BURN''"

record BurnState =
  confirmText :: string
  burn_isSubmitting :: bool
  burn_error :: "string option"

text \<open>The calls the modal makes on its injected callbacks.\<close>

datatype burn_call = OnBurn string jsnum | BurnOnClose

definition isConfirmed :: "BurnState \<Rightarrow> bool" where
  "isConfirmed s = (toUpperCase (confirmText s) = requiredConfirmText)"

definition burn_hasEnoughGas :: "jsnum \<Rightarrow> bool" where
  "burn_hasEnoughGas userBalance = num_le BURN_GAS_ESTIMATE userBalance"

text \<open>
  \<^verbatim>\<open>handleBurn\<close>, run to completion: the state it leaves and the callbacks it called,
  in order. \<open>onBurn\<close> tells whether the injected action resolves or rejects.
\<close>

definition handleBurn ::
  "NFTData \<Rightarrow> jsnum \<Rightarrow> (string \<Rightarrow> jsnum \<Rightarrow> outcome) \<Rightarrow> BurnState \<Rightarrow> BurnState \<times> burn_call list" where
  "handleBurn nft userBalance onBurn s =
     (if \<not> isConfirmed s \<or> \<not> burn_hasEnoughGas userBalance then (s, [])
      else (case onBurn (nft_id nft) (nft_tokenId nft) of
        Resolved \<Rightarrow>
          (s\<lparr>burn_error := None, burn_isSubmitting := False\<rparr>,
           [OnBurn (nft_id nft) (nft_tokenId nft), BurnOnClose])
      | Rejected \<Rightarrow>
          (s\<lparr>burn_error := Some ''Failed to burn NFT. Please try again.'',
             burn_isSubmitting := False\<rparr>,
           [OnBurn (nft_id nft) (nft_tokenId nft)])))"

text \<open>The \<^verbatim>\<open>disabled\<close> attribute of the burn button.\<close>

definition burn_disabled :: "bool \<Rightarrow> jsnum \<Rightarrow> BurnState \<Rightarrow> bool" where
  "burn_disabled loading userBalance s =
     ((loading \<or> burn_isSubmitting s) \<or> \<not> isConfirmed s \<or> \<not> burn_hasEnoughGas userBalance)"

section \<open>CollectionFilter\<close>

definition DEFAULT_PRICE_RANGE :: "jsnum \<times> jsnum" where
  "DEFAULT_PRICE_RANGE = (Num 0, Num 1000)"

datatype RarityLevel = Common | Uncommon | Rare | Epic | Legendary | Mythic

datatype StatusOption = BuyNow | OnAuction | New | HasOffers

datatype Currency = STX | USD

text \<open>
  \<^verbatim>\<open>interface FilterState\<close>. The object \<^verbatim>\<open>traits: Record<string, string[]>\<close> is the list of
  its entries in key order; \<open>map_of\<close> looks a key up, \<open>AList.update\<close> assigns to a key
  (in place when the key exists, as a new last entry otherwise) and \<open>AList.delete\<close>
  is \<^verbatim>\<open>delete\<close>.
\<close>

record FilterState =
  priceRange :: "jsnum \<times> jsnum"
  rarities :: "RarityLevel list"
  statuses :: "StatusOption list"
  traits :: "(string \<times> string list) list"
  currency :: Currency
  sortBy :: string

text \<open>The props the handlers read; \<^verbatim>\<open>maxPrice\<close> defaults to 1000 when the parent omits it.\<close>

record CollectionFilterProps =
  filters :: FilterState
  maxPrice :: jsnum

definition maxPrice_default :: jsnum where
  "maxPrice_default = Num 1000"

text \<open>The component's own state: the two text buffers of the price inputs.\<close>

record CollectionFilterLocal =
  localPriceMin :: string
  localPriceMax :: string

text \<open>
  \<^verbatim>\<open>updateFilters(updates)\<close> calls \<^verbatim>\<open>onFiltersChange({ ...filters, ...updates })\<close>; the
  model returns the state handed to \<^verbatim>\<open>onFiltersChange\<close>, and \<open>updates\<close> is the record update.
\<close>

definition updateFilters ::
  "CollectionFilterProps \<Rightarrow> (FilterState \<Rightarrow> FilterState) \<Rightarrow> FilterState" where
  "updateFilters props updates = updates (filters props)"

text \<open>
  Reading a property of an object also finds what the object inherits. \<^verbatim>\<open>traits\<close> is a plain
  object (\<^verbatim>\<open>{}\<close> in \<^verbatim>\<open>clearAllFilters\<close>, a spread copy in \<^verbatim>\<open>toggleTraitValue\<close>), so it
  inherits the members of \<^verbatim>\<open>Object.prototype\<close>, whose names these are.
\<close>

definition Object_prototype_members :: "string list" where
  "Object_prototype_members =
     [''constructor'', ''hasOwnProperty'', ''isPrototypeOf'', ''propertyIsEnumerable'',
      ''toLocaleString'', ''toString'', ''valueOf'', ''__proto__'', ''__defineGetter__'',
      ''__defineSetter__'', ''__lookupGetter__'', ''__lookupSetter__'']"

datatype js_error = TypeError

text \<open>
  \<^verbatim>\<open>toggleTraitValue\<close>. \<^verbatim>\<open>filters.traits[traitType] || []\<close> is the array of an own key, and
  \<^verbatim>\<open>[]\<close> for a name that is neither an own key nor inherited; for an inherited name that
  is no own key it is the inherited member, a function or an object, which is truthy and
  has no \<^verbatim>\<open>includes\<close>: the call \<^verbatim>\<open>currentValues.includes(value)\<close> throws a TypeError and
  \<^verbatim>\<open>onFiltersChange\<close> is not called.
\<close>

definition toggleTraitValue ::
  "CollectionFilterProps \<Rightarrow> string \<Rightarrow> string \<Rightarrow> js_error + FilterState" where
  "toggleTraitValue props traitType value =
     (if map_of (traits (filters props)) traitType = None
         \<and> traitType \<in> set Object_prototype_members
      then Inl TypeError
      else
        let currentValues =
              (case map_of (traits (filters props)) traitType of Some vs \<Rightarrow> vs | None \<Rightarrow> []);
            newValues =
              (if value \<in> set currentValues then filter (\<lambda>v. v \<noteq> value) currentValues
               else currentValues @ [value]);
            newTraits =
              (if length newValues = 0 then AList.delete traitType (traits (filters props))
               else AList.update traitType newValues (traits (filters props)))
        in Inr (updateFilters props (\<lambda>f. f\<lparr>traits := newTraits\<rparr>)))"

text \<open>
  \<^verbatim>\<open>applyPriceRange\<close>, the handler of both inputs' blur event and of the Apply button.
  \<open>parseFloat\<close> is the platform's function of that name.
\<close>

definition applyPriceRange ::
  "(string \<Rightarrow> jsnum) \<Rightarrow> CollectionFilterProps \<Rightarrow> CollectionFilterLocal \<Rightarrow> FilterState" where
  "applyPriceRange parseFloat props l =
     (let min = num_or (parseFloat (localPriceMin l)) (Num 0);
          max = num_or (parseFloat (localPriceMax l)) (maxPrice props)
      in updateFilters props (\<lambda>f. f\<lparr>priceRange := (Math_min min max, Math_max min max)\<rparr>))"

text \<open>
  \<^verbatim>\<open>clearAllFilters\<close>: the state handed to \<^verbatim>\<open>onFiltersChange\<close> and the new local state.
  \<open>toString\<close> is \<^verbatim>\<open>Number.prototype.toString\<close>.
\<close>

definition clearAllFilters ::
  "(jsnum \<Rightarrow> string) \<Rightarrow> CollectionFilterProps \<Rightarrow> CollectionFilterLocal
     \<Rightarrow> FilterState \<times> CollectionFilterLocal" where
  "clearAllFilters toString props l =
     (\<lparr>priceRange = DEFAULT_PRICE_RANGE, rarities = [], statuses = [], traits = [],
       currency = STX, sortBy = ''recent''\<rparr>,
      l\<lparr>localPriceMin := ''0'', localPriceMax := toString (maxPrice props)\<rparr>)"

text \<open>
  The reading of \<^verbatim>\<open>traits\<close> as the data model has it, a mapping from trait names to sets
  of selected values: \<open>selectedValues\<close> is the set selected for a trait (empty when the
  trait is no key), \<open>traitSets\<close> the whole mapping, and \<open>noEmptyTrait\<close> says that no key
  is mapped to an empty selection.
\<close>

definition selectedValues :: "FilterState \<Rightarrow> string \<Rightarrow> string set" where
  "selectedValues f t = (case map_of (traits f) t of None \<Rightarrow> {} | Some vs \<Rightarrow> set vs)"

definition traitSets :: "FilterState \<Rightarrow> string \<Rightarrow> string set option" where
  "traitSets f t = map_option set (map_of (traits f) t)"

definition noEmptyTrait :: "FilterState \<Rightarrow> bool" where
  "noEmptyTrait f = list_all (\<lambda>(t, vs). vs \<noteq> []) (traits f)"

section \<open>TransferNFTModal\<close>

definition TRANSFER_GAS_ESTIMATE :: jsnum where
  "TRANSFER_GAS_ESTIMATE = fl (5 / 10000)"

definition STACKS_ADDRESS_LENGTH :: nat where
  "STACKS_ADDRESS_LENGTH = 41"

text \<open>The character class \<^verbatim>\<open>[A-Z0-9]\<close>, and the class \<^verbatim>\<open>[a-z0-9-]\<close> under the flag
  \<^verbatim>\<open>i\<close>, which also matches the capital letters.\<close>

definition isUpperOrDigit :: "char \<Rightarrow> bool" where
  "isUpperOrDigit c = (c \<in> set ''ABCDEFGHIJKLMNOPQRSTUVWXYZ0123456789'')"

definition isDomainChar :: "char \<Rightarrow> bool" where
  "isDomainChar c = (toLowerChar c \<in> set ''abcdefghijklmnopqrstuvwxyz0123456789-'')"

text \<open>\<^verbatim>\<open>STACKS_ADDRESS_REGEX.test\<close> for \<^verbatim>\<open>/^SP[A-Z0-9]{39}$/\<close>: the whole string is SP and
  then 39 characters of the class.\<close>

definition STACKS_ADDRESS_REGEX_test :: "string \<Rightarrow> bool" where
  "STACKS_ADDRESS_REGEX_test s =
     (take 2 s = ''SP'' \<and> length (drop 2 s) = 39 \<and> list_all isUpperOrDigit (drop 2 s))"

text \<open>\<^verbatim>\<open>BNS_DOMAIN_REGEX.test\<close> for \<^verbatim>\<open>/^[a-z0-9-]+\.btc$/i\<close>: the last four characters are
  \<^verbatim>\<open>.btc\<close> in any case, and before them stands at least one character, all of the class.\<close>

definition BNS_DOMAIN_REGEX_test :: "string \<Rightarrow> bool" where
  "BNS_DOMAIN_REGEX_test s =
     (let n = length s
      in 5 \<le> n \<and> list_all isDomainChar (take (n - 4) s)
         \<and> map toLowerChar (drop (n - 4) s) = ''.btc'')"

definition startsWith :: "string \<Rightarrow> string \<Rightarrow> bool" where
  "startsWith s prefix = (take (length prefix) s = prefix)"

text \<open>\<^verbatim>\<open>String.prototype.trim\<close>: the white space and line terminators of the 8-bit range are
  tab, line feed, vertical tab, form feed, carriage return, space and no-break space.\<close>

definition isWhiteSpace :: "char \<Rightarrow> bool" where
  "isWhiteSpace c =
     (c \<in> set [CHR 0x09, CHR 0x0A, CHR 0x0B, CHR 0x0C, CHR 0x0D, CHR 0x20, CHR 0xA0])"

definition trim :: "string \<Rightarrow> string" where
  "trim s = rev (dropWhile isWhiteSpace (rev (dropWhile isWhiteSpace s)))"

text \<open>\<^verbatim>\<open>interface TransferData\<close>; an absent \<^verbatim>\<open>memo\<close> is \<open>None\<close>.\<close>

record TransferData =
  nftId :: string
  tokenId :: jsnum
  data_recipient :: string
  data_memo :: "string option"

text \<open>The state of the modal; \<^verbatim>\<open>errors\<close> is the list of the entries of the object.\<close>

record TransferState =
  recipient :: string
  memo :: string
  isValidating :: bool
  addressValid :: "bool option"
  resolvedAddress :: "string option"
  transfer_errors :: "(string \<times> string) list"
  transfer_isSubmitting :: bool
  showConfirmation :: bool

datatype transfer_call = OnTransfer TransferData | TransferOnClose

text \<open>The effect that resets the form when the modal opens.\<close>

definition resetOnOpen :: "TransferState \<Rightarrow> TransferState" where
  "resetOnOpen s = s\<lparr>recipient := [], memo := [], addressValid := None,
     resolvedAddress := None, transfer_errors := [], showConfirmation := False\<rparr>"

definition mockResolvedAddress :: string where
  "mockResolvedAddress = ''SP'' @ replicate 39 CHR ''X''"

text \<open>
  \<^verbatim>\<open>validateAddress\<close>, run to completion (the mock resolution of a BNS name waits and
  then succeeds; nothing in the \<^verbatim>\<open>try\<close> block throws, so the \<^verbatim>\<open>catch\<close> branch is never
  taken).
\<close>

definition validateAddress :: "string \<Rightarrow> TransferState \<Rightarrow> TransferState" where
  "validateAddress address s =
     (if address = [] then s\<lparr>addressValid := None, resolvedAddress := None\<rparr>
      else if BNS_DOMAIN_REGEX_test address then
        s\<lparr>resolvedAddress := Some mockResolvedAddress, addressValid := Some True,
          isValidating := False\<rparr>
      else if STACKS_ADDRESS_REGEX_test address then
        s\<lparr>addressValid := Some True, resolvedAddress := None, isValidating := False\<rparr>
      else if startsWith address ''SP'' \<and> length address = STACKS_ADDRESS_LENGTH then
        s\<lparr>addressValid := Some True, resolvedAddress := None, isValidating := False\<rparr>
      else s\<lparr>addressValid := Some False, resolvedAddress := None, isValidating := False\<rparr>)"

text \<open>
  The same function in the two parts in which it runs. \<open>validateAddress_start\<close> is the part
  up to the \<^verbatim>\<open>await\<close>, which only the BNS branch has: a text that does not match the domain
  pattern is classified at once; for one that matches, the call is left pending (the flag
  returned) with \<^verbatim>\<open>isValidating\<close> set. \<open>validateAddress_resume\<close> is the rest of a pending
  call, 500 ms later, on the state of that moment. Nothing cancels a pending call.
\<close>

definition validateAddress_start :: "string \<Rightarrow> TransferState \<Rightarrow> TransferState \<times> bool" where
  "validateAddress_start address s =
     (if address = [] then (s\<lparr>addressValid := None, resolvedAddress := None\<rparr>, False)
      else if BNS_DOMAIN_REGEX_test address then (s\<lparr>isValidating := True\<rparr>, True)
      else if STACKS_ADDRESS_REGEX_test address then
        (s\<lparr>addressValid := Some True, resolvedAddress := None, isValidating := False\<rparr>, False)
      else if startsWith address ''SP'' \<and> length address = STACKS_ADDRESS_LENGTH then
        (s\<lparr>addressValid := Some True, resolvedAddress := None, isValidating := False\<rparr>, False)
      else (s\<lparr>addressValid := Some False, resolvedAddress := None, isValidating := False\<rparr>,
            False))"

definition validateAddress_resume :: "TransferState \<Rightarrow> TransferState" where
  "validateAddress_resume s =
     s\<lparr>resolvedAddress := Some mockResolvedAddress, addressValid := Some True,
       isValidating := False\<rparr>"

text \<open>Typing into the recipient field (or picking a recent recipient), and the debounce
  timer firing 300 ms after the last change, which calls \<^verbatim>\<open>validateAddress(recipient)\<close>.\<close>

definition setRecipient :: "string \<Rightarrow> TransferState \<Rightarrow> TransferState" where
  "setRecipient r s = s\<lparr>recipient := r\<rparr>"


definition transfer_hasEnoughGas :: "jsnum \<Rightarrow> bool" where
  "transfer_hasEnoughGas userBalance = num_le TRANSFER_GAS_ESTIMATE userBalance"

text \<open>\<^verbatim>\<open>validate\<close>: its result and the state with the errors it sets.\<close>

definition transfer_validate :: "jsnum \<Rightarrow> TransferState \<Rightarrow> bool \<times> TransferState" where
  "transfer_validate userBalance s =
     (let newErrors =
            (if recipient s = [] then [(''recipient'', ''Please enter a recipient address'')]
             else if addressValid s \<noteq> Some True
               then [(''recipient'', ''Invalid Stacks address or BNS name'')]
             else [])
            @ (if \<not> transfer_hasEnoughGas userBalance
               then [(''gas'', ''Insufficient balance for gas. Need 0.0005 STX'')] else [])
      in (newErrors = [], s\<lparr>transfer_errors := newErrors\<rparr>))"


definition handleContinue :: "jsnum \<Rightarrow> TransferState \<Rightarrow> TransferState" where
  "handleContinue userBalance s =
     (case transfer_validate userBalance s of
        (ok, s') \<Rightarrow> if ok then s'\<lparr>showConfirmation := True\<rparr> else s')"

text \<open>The object \<^verbatim>\<open>handleSubmit\<close> hands to \<^verbatim>\<open>onTransfer\<close>:
  \<^verbatim>\<open>recipient: resolvedAddress || recipient\<close>, \<^verbatim>\<open>memo: memo.trim() || undefined\<close>.\<close>

definition transferData :: "NFTData \<Rightarrow> TransferState \<Rightarrow> TransferData" where
  "transferData nft s =
     \<lparr>nftId = nft_id nft, tokenId = nft_tokenId nft,
      data_recipient =
        (case resolvedAddress s of
           Some a \<Rightarrow> if a \<noteq> [] then a else recipient s
         | None \<Rightarrow> recipient s),
      data_memo = (if trim (memo s) \<noteq> [] then Some (trim (memo s)) else None)\<rparr>"

text \<open>\<^verbatim>\<open>handleSubmit\<close>, run to completion: the state it leaves and the callbacks it called.\<close>

definition transfer_handleSubmit ::
  "NFTData \<Rightarrow> jsnum \<Rightarrow> (TransferData \<Rightarrow> outcome) \<Rightarrow> TransferState
     \<Rightarrow> TransferState \<times> transfer_call list" where
  "transfer_handleSubmit nft userBalance onTransfer s =
     (case transfer_validate userBalance s of
        (ok, s') \<Rightarrow>
          if \<not> ok then (s', [])
          else (case onTransfer (transferData nft s) of
            Resolved \<Rightarrow>
              (s'\<lparr>transfer_isSubmitting := False\<rparr>,
               [OnTransfer (transferData nft s), TransferOnClose])
          | Rejected \<Rightarrow>
              (s'\<lparr>transfer_errors := [(''submit'', ''Failed to transfer NFT. Please try again.'')],
                  showConfirmation := False, transfer_isSubmitting := False\<rparr>,
               [OnTransfer (transferData nft s)])))"

section \<open>ListNFTModal\<close>

definition MARKETPLACE_FEE_PERCENT :: jsnum where
  "MARKETPLACE_FEE_PERCENT = fl (5 / 2)"






section \<open>MakeOfferModal\<close>

definition MIN_OFFER_PERCENT :: jsnum where
  "MIN_OFFER_PERCENT = Num 10"

text \<open>\<^verbatim>\<open>interface NFTData\<close> of MakeOfferModal; an absent optional price is \<open>None\<close>.\<close>

record OfferNFTData =
  offer_nft_id :: string
  offer_nft_name :: string
  offer_nft_image :: "string option"
  offer_nft_collection :: string
  currentPrice :: "jsnum option"
  floorPrice :: "jsnum option"
  lastSalePrice :: "jsnum option"
  owner :: string

record OfferData =
  offer_nftId :: string
  offer_amount :: jsnum
  expirationDays :: jsnum
  offer_message :: "string option"

record OfferState =
  amount :: string
  expiration :: jsnum
  message :: string
  offer_errors :: "(string \<times> string) list"
  offer_isSubmitting :: bool

datatype offer_call = OnOffer OfferData | OfferOnClose

text \<open>\<^verbatim>\<open>nft.currentPrice || nft.floorPrice || 0\<close>\<close>

definition referencePrice :: "OfferNFTData \<Rightarrow> jsnum" where
  "referencePrice nft =
     (case currentPrice nft of
        Some c \<Rightarrow> if truthy c then c
                  else (case floorPrice nft of Some f \<Rightarrow> num_or f (Num 0) | None \<Rightarrow> Num 0)
      | None \<Rightarrow> (case floorPrice nft of Some f \<Rightarrow> num_or f (Num 0) | None \<Rightarrow> Num 0))"

definition offerAmount :: "(string \<Rightarrow> jsnum) \<Rightarrow> OfferState \<Rightarrow> jsnum" where
  "offerAmount parseFloat s = num_or (parseFloat (amount s)) (Num 0)"

definition hasEnoughBalance :: "(string \<Rightarrow> jsnum) \<Rightarrow> jsnum \<Rightarrow> jsnum \<Rightarrow> OfferState \<Rightarrow> bool" where
  "hasEnoughBalance parseFloat userBalance wstxBalance s =
     (num_le (offerAmount parseFloat s) userBalance \<or> num_le (offerAmount parseFloat s) wstxBalance)"

definition totalBalance :: "jsnum \<Rightarrow> jsnum \<Rightarrow> jsnum" where
  "totalBalance userBalance wstxBalance = num_add userBalance wstxBalance"

text \<open>\<^verbatim>\<open>validate\<close>: its result and the state with the errors it sets. \<open>toFixed\<close> is
  \<^verbatim>\<open>Number.prototype.toFixed\<close>.\<close>

definition offer_validate ::
  "(string \<Rightarrow> jsnum) \<Rightarrow> (jsnum \<Rightarrow> nat \<Rightarrow> string) \<Rightarrow> OfferNFTData \<Rightarrow> jsnum \<Rightarrow> jsnum
     \<Rightarrow> OfferState \<Rightarrow> bool \<times> OfferState" where
  "offer_validate parseFloat toFixed nft userBalance wstxBalance s =
     (let newErrors =
            (if amount s = [] \<or> num_le (offerAmount parseFloat s) (Num 0)
               then [(''amount'', ''Please enter an offer amount'')]
             else if \<not> hasEnoughBalance parseFloat userBalance wstxBalance s
               then [(''amount'', ''Insufficient balance. You have ''
                       @ toFixed (totalBalance userBalance wstxBalance) 4 @ '' STX'')]
             else if num_lt (Num 0) (referencePrice nft)
                     \<and> num_lt (offerAmount parseFloat s)
                          (num_mul (referencePrice nft) (num_div MIN_OFFER_PERCENT (Num 100)))
               then [(''amount'', ''Minimum offer is 10% of floor price'')]
             else [])
      in (newErrors = [], s\<lparr>offer_errors := newErrors\<rparr>))"

definition offer_handleSubmit ::
  "(string \<Rightarrow> jsnum) \<Rightarrow> (jsnum \<Rightarrow> nat \<Rightarrow> string) \<Rightarrow> OfferNFTData \<Rightarrow> jsnum \<Rightarrow> jsnum
     \<Rightarrow> (OfferData \<Rightarrow> outcome) \<Rightarrow> OfferState \<Rightarrow> OfferState \<times> offer_call list" where
  "offer_handleSubmit parseFloat toFixed nft userBalance wstxBalance onOffer s =
     (case offer_validate parseFloat toFixed nft userBalance wstxBalance s of
        (ok, s') \<Rightarrow>
          if \<not> ok then (s', [])
          else
            let d = \<lparr>offer_nftId = offer_nft_id nft, offer_amount = offerAmount parseFloat s,
                     expirationDays = expiration s,
                     offer_message = (if trim (message s) \<noteq> [] then Some (trim (message s))
                                      else None)\<rparr>
            in (case onOffer d of
                  Resolved \<Rightarrow> (s'\<lparr>offer_isSubmitting := False\<rparr>, [OnOffer d, OfferOnClose])
                | Rejected \<Rightarrow>
                    (s'\<lparr>offer_errors :=
                         [(''submit'', ''Failed to submit offer. Please try again.'')],
                       offer_isSubmitting := False\<rparr>,
                     [OnOffer d])))"

section \<open>useCollection\<close>

text \<open>
  \<^verbatim>\<open>page\<close> and \<^verbatim>\<open>totalCount\<close> are counters (\<^verbatim>\<open>page\<close> starts at 1 and is stepped by 1,
  \<^verbatim>\<open>totalCount\<close> is a supply); they are integers, on which the arithmetic of doubles is
  exact far beyond any page count. The collection record and the generated NFTs stay
  abstract: \<open>'c\<close> and \<open>'n\<close>.
\<close>

definition PAGE_SIZE :: int where
  "PAGE_SIZE = 24"

record ('c, 'n) CollectionState =
  collection :: "'c option"
  nfts :: "'n list"
  isLoading :: bool
  error :: "string option"
  page :: int
  totalCount :: int
  hasMore :: bool

text \<open>The initial values of the seven \<^verbatim>\<open>useState\<close> cells.\<close>

definition useCollection_init :: "('c, 'n) CollectionState" where
  "useCollection_init =
     \<lparr>collection = None, nfts = [], isLoading = True, error = None, page = 1,
      totalCount = 0, hasMore = True\<rparr>"

text \<open>\<^verbatim>\<open>fetchCollection\<close>, completed: \<open>mock\<close> is \<^verbatim>\<open>mockCollection\<close> and \<open>totalSupply\<close> its
  field of that name (10000 in the source).\<close>

definition fetchCollection :: "'c \<Rightarrow> int \<Rightarrow> ('c, 'n) CollectionState \<Rightarrow> ('c, 'n) CollectionState" where
  "fetchCollection mock totalSupply s = s\<lparr>collection := Some mock, totalCount := totalSupply\<rparr>"

text \<open>
  An asynchronous function runs up to its \<^verbatim>\<open>await\<close> when it is called and resumes later, on
  the state of that later moment; the values it reads from its closure are those of the
  render that created it. \<^verbatim>\<open>fetchNFTs\<close> is created by \<^verbatim>\<open>useCallback\<close> with the dependency
  \<^verbatim>\<open>totalCount\<close>, so it computes with the \<^verbatim>\<open>totalCount\<close> of the render it was taken from.
\<close>

text \<open>\<^verbatim>\<open>fetchNFTs\<close> up to the \<^verbatim>\<open>await\<close>.\<close>

definition fetchNFTs_start :: "('c, 'n) CollectionState \<Rightarrow> ('c, 'n) CollectionState" where
  "fetchNFTs_start s = s\<lparr>isLoading := True\<rparr>"

text \<open>
  \<^verbatim>\<open>fetchNFTs(pageNum, append)\<close> after the \<^verbatim>\<open>await\<close>, on the state \<open>s\<close> of that moment.
  \<open>capturedTotalCount\<close> is the \<^verbatim>\<open>totalCount\<close> of the closure, and
  \<open>generateMockNFTs count offset\<close> stands for the function of that name, whose records are
  filled from \<^verbatim>\<open>Math.random\<close>.
\<close>

definition fetchNFTs ::
  "(int \<Rightarrow> int \<Rightarrow> 'n list) \<Rightarrow> int \<Rightarrow> int \<Rightarrow> bool \<Rightarrow> ('c, 'n) CollectionState
     \<Rightarrow> ('c, 'n) CollectionState" where
  "fetchNFTs generateMockNFTs capturedTotalCount pageNum append' s =
     (let offset = (pageNum - 1) * PAGE_SIZE;
          remainingItems = max 0 (capturedTotalCount - offset);
          itemsToFetch = min PAGE_SIZE remainingItems;
          newNfts = generateMockNFTs itemsToFetch offset
      in s\<lparr>nfts := (if append' then nfts s @ newNfts else newNfts),
           hasMore := (offset + itemsToFetch < capturedTotalCount),
           isLoading := False\<rparr>)"

text \<open>
  The effect with the dependencies \<^verbatim>\<open>page\<close>, \<^verbatim>\<open>totalCount\<close> and \<^verbatim>\<open>fetchNFTs\<close>: \<open>r\<close> is the
  state of the render that runs it (it calls the \<^verbatim>\<open>fetchNFTs\<close> of that render with that
  render's page), \<open>s\<close> the state on which its fetch completes.
\<close>

definition pageEffect ::
  "(int \<Rightarrow> int \<Rightarrow> 'n list) \<Rightarrow> ('c, 'n) CollectionState \<Rightarrow> ('c, 'n) CollectionState
     \<Rightarrow> ('c, 'n) CollectionState" where
  "pageEffect generateMockNFTs r s =
     (if 0 < totalCount r then fetchNFTs generateMockNFTs (totalCount r) (page r) (1 < page r) s
      else s)"

text \<open>\<^verbatim>\<open>fetchMore\<close> of the render with state \<open>r\<close>, called on the state \<open>s\<close>; and the
  \<^verbatim>\<open>setPage\<close> handed to the caller.\<close>

definition fetchMore :: "('c, 'n) CollectionState \<Rightarrow> ('c, 'n) CollectionState \<Rightarrow> ('c, 'n) CollectionState" where
  "fetchMore r s = (if \<not> hasMore r \<or> isLoading r then s else s\<lparr>page := page s + 1\<rparr>)"

definition setPage :: "int \<Rightarrow> ('c, 'n) CollectionState \<Rightarrow> ('c, 'n) CollectionState" where
  "setPage p s = s\<lparr>page := p\<rparr>"

text \<open>
  \<^verbatim>\<open>refresh\<close>, run without anything in between: it resets the page and the list, awaits
  \<^verbatim>\<open>fetchCollection\<close>, and then calls the \<^verbatim>\<open>fetchNFTs\<close> that its own closure holds, which
  computes with the \<^verbatim>\<open>totalCount\<close> of the render that \<^verbatim>\<open>refresh\<close> was taken from.
\<close>

definition refresh ::
  "'c \<Rightarrow> int \<Rightarrow> (int \<Rightarrow> int \<Rightarrow> 'n list) \<Rightarrow> int \<Rightarrow> ('c, 'n) CollectionState
     \<Rightarrow> ('c, 'n) CollectionState" where
  "refresh mock totalSupply generateMockNFTs capturedTotalCount s =
     fetchNFTs generateMockNFTs capturedTotalCount 1 False
       (fetchNFTs_start (fetchCollection mock totalSupply (s\<lparr>page := 1, nfts := []\<rparr>)))"

text \<open>Abbreviations used in the proofs: the values held for a trait (none when the trait
  is no key), the toggled list of values, and the state that \<^verbatim>\<open>toggleTraitValue\<close> emits
  when it does not throw.\<close>

definition toggleEmitted :: "CollectionFilterProps \<Rightarrow> string \<Rightarrow> string \<Rightarrow> FilterState" where
  "toggleEmitted props traitType value =
     (let currentValues =
            (case map_of (traits (filters props)) traitType of Some vs \<Rightarrow> vs | None \<Rightarrow> []);
          newValues =
            (if value \<in> set currentValues then filter (\<lambda>v. v \<noteq> value) currentValues
             else currentValues @ [value]);
          newTraits =
            (if length newValues = 0 then AList.delete traitType (traits (filters props))
             else AList.update traitType newValues (traits (filters props)))
      in updateFilters props (\<lambda>f. f\<lparr>traits := newTraits\<rparr>))"


definition currentValuesOf :: "FilterState \<Rightarrow> string \<Rightarrow> string list" where
  "currentValuesOf f t = (case map_of (traits f) t of Some vs \<Rightarrow> vs | None \<Rightarrow> [])"

definition toggled :: "string \<Rightarrow> string list \<Rightarrow> string list" where
  "toggled v xs = (if v \<in> set xs then filter (\<lambda>x. x \<noteq> v) xs else xs @ [v])"

section \<open>Sample inputs\<close>

text \<open>Concrete platform functions and inputs, for running the handlers.\<close>

definition sampleParseFloat :: "string \<Rightarrow> jsnum" where
  "sampleParseFloat s =
     (if s = ''10'' then Num 10 else if s = ''50'' then Num 50 else if s = ''100'' then Num 100
      else NaN)"

definition sampleToFixed :: "jsnum \<Rightarrow> nat \<Rightarrow> string" where
  "sampleToFixed x digits = (if x = Num 12 \<and> digits = 4 then ''12.0000'' else ''NaN'')"

definition sampleNft :: NFTData where
  "sampleNft = \<lparr>nft_id = ''nft-7'', nft_name = ''Stacks Punk #8'', nft_image = None,
     nft_collection = ''Stacks Punks'', nft_tokenId = Num 8\<rparr>"

definition sampleOfferNft :: OfferNFTData where
  "sampleOfferNft = \<lparr>offer_nft_id = ''nft-7'', offer_nft_name = ''Stacks Punk #8'',
     offer_nft_image = None, offer_nft_collection = ''Stacks Punks'', currentPrice = None,
     floorPrice = Some (Num 20), lastSalePrice = None, owner = ''SP1ABC''\<rparr>"

definition sampleTransfer :: TransferState where
  "sampleTransfer = \<lparr>recipient = [], memo = '' gift '', isValidating = False,
     addressValid = None, resolvedAddress = None, transfer_errors = [],
     transfer_isSubmitting = False, showConfirmation = False\<rparr>"

definition sampleAddress :: string where
  "sampleAddress = ''SP2J6ZY48GV1EZ5V2V5RB9MP66SW86PYKKNRV9EJ7''"


definition sampleLowerAddress :: string where
  "sampleLowerAddress = ''SPaaaaaaaaaaaaaaaaaaaaaaaaaaaaaaaaaaaaaaa''"

definition sampleFilterProps :: CollectionFilterProps where
  "sampleFilterProps =
     \<lparr>filters = \<lparr>priceRange = (Num 0, Num 1000), rarities = [], statuses = [],
        traits = [(''Hat'', [''Cap'', ''Crown''])], currency = STX, sortBy = ''recent''\<rparr>,
      maxPrice = Num 1000\<rparr>"

definition sampleInheritedProps :: CollectionFilterProps where
  "sampleInheritedProps =
     \<lparr>filters = \<lparr>priceRange = (Num 0, Num 1000), rarities = [], statuses = [],
        traits = [(''toString'', [''x''])], currency = STX, sortBy = ''recent''\<rparr>,
      maxPrice = Num 1000\<rparr>"

definition sampleInheritedToggled :: FilterState where
  "sampleInheritedToggled =
     \<lparr>priceRange = (Num 0, Num 1000), rarities = [], statuses = [], traits = [],
      currency = STX, sortBy = ''recent''\<rparr>"

definition sampleGenerate :: "int \<Rightarrow> int \<Rightarrow> unit list" where
  "sampleGenerate count offset = replicate (nat count) ()"

definition sampleInitial :: "(unit, unit) CollectionState" where
  "sampleInitial = useCollection_init"

definition sampleLoaded :: "(unit, unit) CollectionState" where
  "sampleLoaded = fetchCollection () 10000 sampleInitial"

definition sampleOffer :: OfferState where
  "sampleOffer = \<lparr>amount = ''10'', expiration = Num 7, message = [], offer_errors = [],
     offer_isSubmitting = False\<rparr>"

section \<open>Facts about characters and numbers\<close>

lemma toUpperChar_B: "toUpperChar c = CHR ''B'' \<longleftrightarrow> toLowerChar c = CHR ''b''"
  by (auto simp: toUpperChar_def toLowerChar_def split: if_splits)

lemma toUpperChar_U: "toUpperChar c = CHR ''U'' \<longleftrightarrow> toLowerChar c = CHR ''u''"
  by (auto simp: toUpperChar_def toLowerChar_def split: if_splits)

lemma toUpperChar_R: "toUpperChar c = CHR ''R'' \<longleftrightarrow> toLowerChar c = CHR ''r''"
  by (auto simp: toUpperChar_def toLowerChar_def split: if_splits)

lemma toUpperChar_N: "toUpperChar c = CHR ''N'' \<longleftrightarrow> toLowerChar c = CHR ''n''"
  by (auto simp: toUpperChar_def toLowerChar_def split: if_splits)

lemma toLowerChar_BURN:
  "toLowerChar CHR ''B'' = CHR ''b''" "toLowerChar CHR ''U'' = CHR ''u''"
  "toLowerChar CHR ''R'' = CHR ''r''" "toLowerChar CHR ''N'' = CHR ''n''"
  by (simp_all add: toLowerChar_def)

lemma isConfirmed_iff: "isConfirmed s \<longleftrightarrow> equalsIgnoreCase (confirmText s) ''BURN''"
  by (auto simp: isConfirmed_def toUpperCase_def requiredConfirmText_def equalsIgnoreCase_def
      list_all2_Cons2 toUpperChar_B toUpperChar_U toUpperChar_R toUpperChar_N toLowerChar_BURN)

lemma BURN_GAS_ESTIMATE_value: "BURN_GAS_ESTIMATE = Num (5534023222112865 / 2 ^ 64)"
  unfolding BURN_GAS_ESTIMATE_def by code_simp

subsection \<open>Numbers\<close>

lemma num_or_not_NaN: "b \<noteq> NaN \<Longrightarrow> num_or a b \<noteq> NaN"
  by (cases a) (auto simp: num_or_def)

lemma Math_min_le_max: "a \<noteq> NaN \<Longrightarrow> b \<noteq> NaN \<Longrightarrow> num_le (Math_min a b) (Math_max a b)"
  by (cases a; cases b) (auto simp: Math_min_def Math_max_def)

lemma Math_min_commute: "Math_min a b = Math_min b a"
  by (cases a; cases b) (auto simp: Math_min_def)

lemma Math_max_commute: "Math_max a b = Math_max b a"
  by (cases a; cases b) (auto simp: Math_max_def)

lemma Math_min_max_pair:
  "a \<noteq> NaN \<Longrightarrow> b \<noteq> NaN \<Longrightarrow>
   (Math_min a b, Math_max a b) = (if num_le a b then (a, b) else (b, a))"
  by (simp add: Math_min_def Math_max_def)

lemma num_or_truthy: "truthy a \<Longrightarrow> num_or a b = a"
  by (simp add: num_or_def)

subsection \<open>Toggling a trait value\<close>

lemma traits_toggle_same:
  "map_of (traits (toggleEmitted props t v)) t =
     (if toggled v (currentValuesOf (filters props) t) = [] then None else Some (toggled v (currentValuesOf (filters props) t)))"
  by (simp add: toggleEmitted_def updateFilters_def Let_def update_conv' delete_conv' currentValuesOf_def toggled_def)

lemma traits_toggle_other:
  "k \<noteq> t \<Longrightarrow> map_of (traits (toggleEmitted props t v)) k = map_of (traits (filters props)) k"
  by (simp add: toggleEmitted_def updateFilters_def Let_def update_conv' delete_conv')

lemma currentValuesOf_toggle: "currentValuesOf (toggleEmitted props t v) t = toggled v (currentValuesOf (filters props) t)"
  by (simp add: currentValuesOf_def[of "toggleEmitted props t v"] traits_toggle_same)

lemma set_toggled_twice: "set (toggled v (toggled v xs)) = set xs"
proof (cases "v \<in> set xs")
  case True
  then have "toggled v xs = filter (\<lambda>x. x \<noteq> v) xs" by (simp add: toggled_def)
  moreover have "v \<notin> set (filter (\<lambda>x. x \<noteq> v) xs)" by simp
  ultimately have "toggled v (toggled v xs) = filter (\<lambda>x. x \<noteq> v) xs @ [v]" by (simp add: toggled_def)
  with True show ?thesis by auto
next
  case False
  then have "toggled v xs = xs @ [v]" by (simp add: toggled_def)
  then have "toggled v (toggled v xs) = filter (\<lambda>x. x \<noteq> v) (xs @ [v])" by (simp add: toggled_def)
  also have "\<dots> = xs" using False by (auto simp: filter_id_conv)
  finally show ?thesis by simp
qed

lemma toggled_twice_nonempty: "xs \<noteq> [] \<Longrightarrow> toggled v (toggled v xs) \<noteq> []"
  using set_toggled_twice[of v xs] by (metis set_empty)

lemma selectedValues_currentValuesOf: "selectedValues f t = set (currentValuesOf f t)"
  by (simp add: selectedValues_def currentValuesOf_def split: option.splits)

lemma selectedValues_other:
  "k \<noteq> t \<Longrightarrow> selectedValues (toggleEmitted props t v) k = selectedValues (filters props) k"
  by (simp add: selectedValues_def traits_toggle_other)

lemma filters_update: "filters (props\<lparr>filters := f\<rparr>) = f"
  by simp

lemma selectedValues_twice:
  "selectedValues (toggleEmitted (props\<lparr>filters := toggleEmitted props t v\<rparr>) t v) k
     = selectedValues (filters props) k"
proof (cases "k = t")
  case True
  show ?thesis
    unfolding True selectedValues_currentValuesOf currentValuesOf_toggle filters_update by (rule set_toggled_twice)
next
  case False
  then show ?thesis
    by (simp add: selectedValues_other)
qed

lemma noEmptyTraitD: "noEmptyTrait f \<Longrightarrow> map_of (traits f) t \<noteq> Some []"
  by (auto simp: noEmptyTrait_def list_all_iff dest!: map_of_SomeD)


lemma hasKey_iff: "t \<in> fst ` set (traits f) \<longleftrightarrow> map_of (traits f) t \<noteq> None"
  by (simp add: map_of_eq_None_iff)

lemma traitSets_currentValuesOf:
  "traitSets f t = (if map_of (traits f) t \<noteq> None then Some (set (currentValuesOf f t)) else None)"
  by (cases "map_of (traits f) t") (simp_all add: traitSets_def currentValuesOf_def)

lemma toggle_key_iff:
  "map_of (traits (toggleEmitted props t v)) t \<noteq> None \<longleftrightarrow> toggled v (currentValuesOf (filters props) t) \<noteq> []"
  by (simp add: traits_toggle_same)

lemma toggled_Nil_nonempty: "toggled v [] \<noteq> []"
  by (simp add: toggled_def)

lemma toggled_twice_Nil: "toggled v (toggled v []) = []"
  by (simp add: toggled_def)

lemma currentValuesOf_None: "map_of (traits f) t = None \<Longrightarrow> currentValuesOf f t = []"
  by (simp add: currentValuesOf_def)

lemma currentValuesOf_nonempty: "noEmptyTrait f \<Longrightarrow> map_of (traits f) t \<noteq> None \<Longrightarrow> currentValuesOf f t \<noteq> []"
  using noEmptyTraitD[of f t] by (cases "map_of (traits f) t") (simp_all add: currentValuesOf_def)

lemma traitSets_twice:
  assumes "noEmptyTrait (filters props)"
  shows "traitSets (toggleEmitted (props\<lparr>filters := toggleEmitted props t v\<rparr>) t v) k
     = traitSets (filters props) k"
proof (cases "k = t")
  case False
  then show ?thesis by (simp add: traitSets_def traits_toggle_other)
next
  case True
  let ?f = "filters props"
  let ?f1 = "toggleEmitted props t v"
  let ?f2 = "toggleEmitted (props\<lparr>filters := ?f1\<rparr>) t v"
  have c2: "currentValuesOf ?f2 t = toggled v (toggled v (currentValuesOf ?f t))"
    by (simp add: currentValuesOf_toggle)
  have k2: "map_of (traits ?f2) t \<noteq> None \<longleftrightarrow> toggled v (toggled v (currentValuesOf ?f t)) \<noteq> []"
    by (simp only: toggle_key_iff filters_update currentValuesOf_toggle)
  have "traitSets ?f2 t = traitSets ?f t"
  proof (cases "map_of (traits ?f) t = None")
    case True
    then have "currentValuesOf ?f t = []" by (rule currentValuesOf_None)
    with k2 have "map_of (traits ?f2) t = None" by (simp add: toggled_twice_Nil)
    with True show ?thesis by (simp add: traitSets_def)
  next
    case False
    with assms have "currentValuesOf ?f t \<noteq> []" by (simp add: currentValuesOf_nonempty)
    then have "toggled v (toggled v (currentValuesOf ?f t)) \<noteq> []" by (rule toggled_twice_nonempty)
    with k2 have "map_of (traits ?f2) t \<noteq> None" by blast
    with False show ?thesis
      by (simp add: traitSets_currentValuesOf c2 set_toggled_twice)
  qed
  with True show ?thesis by simp
qed

lemma toggle_key_removed:
  "selectedValues (toggleEmitted props t v) t = {} \<Longrightarrow> t \<notin> fst ` set (traits (toggleEmitted props t v))"
  unfolding hasKey_iff selectedValues_currentValuesOf currentValuesOf_toggle
  by (simp add: traits_toggle_same)

lemma toggle_never_empty_list:
  "map_of (traits (toggleEmitted props t v)) t \<noteq> Some []"
  by (simp add: traits_toggle_same)

lemma list_all_delete: "list_all P al \<Longrightarrow> list_all P (AList.delete k al)"
  by (simp add: AList.delete_eq list_all_iff)

lemma list_all_update: "list_all P al \<Longrightarrow> P (k, v) \<Longrightarrow> list_all P (AList.update k v al)"
  by (induction al) auto

lemma noEmptyTrait_toggle:
  assumes "noEmptyTrait (filters props)"
  shows "noEmptyTrait (toggleEmitted props t v)"
proof -
  let ?new = "toggled v (currentValuesOf (filters props) t)"
  have tr: "traits (toggleEmitted props t v) =
      (if ?new = [] then AList.delete t (traits (filters props))
       else AList.update t ?new (traits (filters props)))"
    by (simp add: toggleEmitted_def updateFilters_def Let_def currentValuesOf_def toggled_def)
  show ?thesis
  proof (cases "?new = []")
    case True
    with assms tr show ?thesis by (simp add: noEmptyTrait_def list_all_delete)
  next
    case False
    with assms tr show ?thesis by (simp add: noEmptyTrait_def list_all_update)
  qed
qed

lemma update_update_restore:
  "map_of al k = Some x \<Longrightarrow> AList.update k x (AList.update k y al) = al"
  by (induction al) (auto split: if_splits)

lemma update_same:
  "map_of al k = Some x \<Longrightarrow> AList.update k x al = al"
  by (induction al) (auto split: if_splits)

lemma delete_update_absent:
  "map_of al k = None \<Longrightarrow> AList.delete k (AList.update k y al) = al"
  by (induction al) (auto split: if_splits)

lemma traits_toggle_eq:
  "traits (toggleEmitted props t v) =
     (if toggled v (currentValuesOf (filters props) t) = []
      then AList.delete t (traits (filters props))
      else AList.update t (toggled v (currentValuesOf (filters props) t)) (traits (filters props)))"
  by (simp add: toggleEmitted_def updateFilters_def Let_def currentValuesOf_def toggled_def)

lemma toggle_add_then_remove:
  assumes new: "v \<notin> selectedValues (filters props) t"
    and ne: "map_of (traits (filters props)) t \<noteq> Some []"
  shows "traits (toggleEmitted (props\<lparr>filters := toggleEmitted props t v\<rparr>) t v)
     = traits (filters props)"
proof -
  let ?al = "traits (filters props)"
  let ?xs = "currentValuesOf (filters props) t"
  from new have nin: "v \<notin> set ?xs"
    by (simp add: selectedValues_currentValuesOf)
  then have t1: "toggled v ?xs = ?xs @ [v]"
    by (simp add: toggled_def)
  then have tr1: "traits (toggleEmitted props t v) = AList.update t (?xs @ [v]) ?al"
    by (simp add: traits_toggle_eq)
  have "filter (\<lambda>x. x \<noteq> v) ?xs = ?xs"
    using nin by (auto simp: filter_id_conv)
  then have t2: "toggled v (?xs @ [v]) = ?xs"
    by (simp add: toggled_def)
  have tr2: "traits (toggleEmitted (props\<lparr>filters := toggleEmitted props t v\<rparr>) t v) =
      (if ?xs = [] then AList.delete t (AList.update t (?xs @ [v]) ?al)
       else AList.update t ?xs (AList.update t (?xs @ [v]) ?al))"
    by (simp add: traits_toggle_eq [of "props\<lparr>filters := toggleEmitted props t v\<rparr>"]
        currentValuesOf_toggle t1 t2 tr1)
  show ?thesis
  proof (cases "map_of ?al t")
    case None
    then have "?xs = []" by (simp add: currentValuesOf_def)
    with tr2 None show ?thesis by (simp add: delete_update_absent)
  next
    case (Some xs)
    then have x: "?xs = xs" by (simp add: currentValuesOf_def)
    with ne Some have "?xs \<noteq> []" by simp
    with tr2 Some x show ?thesis by (simp add: update_update_restore update_same)
  qed
qed

lemma toggleTraitValue_eq:
  "toggleTraitValue props t v =
     (if map_of (traits (filters props)) t = None \<and> t \<in> set Object_prototype_members
      then Inl TypeError else Inr (toggleEmitted props t v))"
  by (simp add: toggleTraitValue_def toggleEmitted_def Let_def)

lemma toggleTraitValue_Inr:
  "t \<notin> set Object_prototype_members \<Longrightarrow> toggleTraitValue props t v = Inr (toggleEmitted props t v)"
  by (simp add: toggleTraitValue_eq)

text \<open>
  For a trait type that is not the name of an inherited member, no toggle throws, and two
  toggles of the same value (the parent applying each emitted state) give every trait its
  prior set of selected values; the mapping from trait names to sets of values is the prior
  one, keys included, when no trait was mapped to an empty selection before, and
  \<^verbatim>\<open>traits\<close> is the prior object, entry for entry, when moreover the value was not selected
  before. A toggle that leaves a trait without selected values removes its key.
\<close>

lemma toggleTraitValue_twice_restores_traits:
  assumes "t \<notin> set Object_prototype_members"
  shows "\<exists>f1 f2. toggleTraitValue props t v = Inr f1
      \<and> toggleTraitValue (props\<lparr>filters := f1\<rparr>) t v = Inr f2
      \<and> (\<forall>k. selectedValues f2 k = selectedValues (filters props) k)
      \<and> (noEmptyTrait (filters props) \<longrightarrow>
            (\<forall>k. traitSets f2 k = traitSets (filters props) k) \<and> noEmptyTrait f1)
      \<and> (v \<notin> selectedValues (filters props) t \<and> map_of (traits (filters props)) t \<noteq> Some []
            \<longrightarrow> traits f2 = traits (filters props))
      \<and> (selectedValues f1 t = {} \<longrightarrow> t \<notin> fst ` set (traits f1))
      \<and> map_of (traits f1) t \<noteq> Some []"
proof -
  let ?f1 = "toggleEmitted props t v"
  let ?f2 = "toggleEmitted (props\<lparr>filters := ?f1\<rparr>) t v"
  have a: "toggleTraitValue props t v = Inr ?f1"
    using assms by (rule toggleTraitValue_Inr)
  have b: "toggleTraitValue (props\<lparr>filters := ?f1\<rparr>) t v = Inr ?f2"
    using assms by (rule toggleTraitValue_Inr)
  show ?thesis
    using a b selectedValues_twice [of props t v] traitSets_twice [of props t v]
      toggle_key_removed [of props t v] toggle_never_empty_list [of props t v]
      noEmptyTrait_toggle [of props t v] toggle_add_then_remove [of v props t]
    by blast
qed

subsection \<open>Fetching, fees, addresses and the transfer flow\<close>

lemma fetchNFTs_hasMore:
  "hasMore (fetchNFTs g c p a s) = (p * PAGE_SIZE < c)"
  by (simp add: fetchNFTs_def Let_def PAGE_SIZE_def min_def max_def algebra_simps)

lemma fetchNFTs_page_totalCount:
  "page (fetchNFTs g c p a s) = page s \<and> totalCount (fetchNFTs g c p a s) = totalCount s"
  by (simp add: fetchNFTs_def Let_def)

text \<open>\<^verbatim>\<open>refresh\<close> called from the first render, before the collection has loaded: its
  \<^verbatim>\<open>fetchNFTs\<close> still computes with the total count 0.\<close>

lemma refresh_before_first_load:
  "hasMore (refresh () 10000 sampleGenerate (totalCount sampleInitial) sampleInitial) = False
   \<and> nfts (refresh () 10000 sampleGenerate (totalCount sampleInitial) sampleInitial) = []
   \<and> page (refresh () 10000 sampleGenerate (totalCount sampleInitial) sampleInitial) = 1
   \<and> totalCount (refresh () 10000 sampleGenerate (totalCount sampleInitial) sampleInitial) = 10000"
  by (simp add: refresh_def fetchNFTs_def fetchNFTs_start_def fetchCollection_def
      sampleInitial_def useCollection_init_def sampleGenerate_def PAGE_SIZE_def Let_def)

lemma fee_rate: "num_div MARKETPLACE_FEE_PERCENT (Num 100) = Num (3602879701896397 / 2 ^ 57)"
  by code_simp




lemma TRANSFER_GAS_ESTIMATE_value: "TRANSFER_GAS_ESTIMATE = Num (1152921504606847 / 2 ^ 61)"
  unfolding TRANSFER_GAS_ESTIMATE_def by code_simp

lemma num_lt_not_le: "num_lt a b \<Longrightarrow> \<not> num_le b a"
  by (cases a; cases b) auto

lemma total_6_6: "totalBalance (Num 6) (Num 6) = Num 12"
  by code_simp



lemma sampleLowerAddress_no_match:
  "\<not> BNS_DOMAIN_REGEX_test sampleLowerAddress \<and> \<not> STACKS_ADDRESS_REGEX_test sampleLowerAddress"
  by code_simp

lemma sampleAddress_match: "STACKS_ADDRESS_REGEX_test sampleAddress"
  by code_simp

lemma sample_domain_match: "BNS_DOMAIN_REGEX_test ''Alice-1.BTC''"
  by code_simp

lemma STACKS_startsWith:
  "STACKS_ADDRESS_REGEX_test a \<Longrightarrow> startsWith a ''SP'' \<and> length a = STACKS_ADDRESS_LENGTH"
  by (auto simp: STACKS_ADDRESS_REGEX_test_def startsWith_def STACKS_ADDRESS_LENGTH_def
      numeral_2_eq_2)

lemma STACKS_not_empty: "STACKS_ADDRESS_REGEX_test a \<Longrightarrow> a \<noteq> []"
  by (auto simp: STACKS_ADDRESS_REGEX_test_def)

lemma BNS_not_empty: "BNS_DOMAIN_REGEX_test a \<Longrightarrow> a \<noteq> []"
  by (auto simp: BNS_DOMAIN_REGEX_test_def Let_def)

lemma toLowerChar_dot: "toLowerChar c = CHR ''.'' \<Longrightarrow> c = CHR ''.''"
  by (auto simp: toLowerChar_def split: if_splits)

lemma not_class_dot: "\<not> isUpperOrDigit CHR ''.''"
  by (simp add: isUpperOrDigit_def)

lemma STACKS_not_BNS:
  assumes st: "STACKS_ADDRESS_REGEX_test a"
  shows "\<not> BNS_DOMAIN_REGEX_test a"
proof
  assume bns: "BNS_DOMAIN_REGEX_test a"
  from st have len: "length a = 41" and cls: "list_all isUpperOrDigit (drop 2 a)"
    by (auto simp: STACKS_ADDRESS_REGEX_test_def)
  from bns len have suf: "map toLowerChar (drop 37 a) = ''.btc''"
    by (simp add: BNS_DOMAIN_REGEX_test_def Let_def)
  then obtain c cs where d: "drop 37 a = c # cs" and c: "toLowerChar c = CHR ''.''"
    by (auto simp: map_eq_Cons_conv)
  from c have "c = CHR ''.''" by (rule toLowerChar_dot)
  moreover have "c \<in> set (drop 2 a)"
  proof -
    have "c \<in> set (drop 37 a)" using d by simp
    moreover have "set (drop 37 a) \<subseteq> set (drop 2 a)"
      by (rule set_drop_subset_set_drop) simp
    ultimately show ?thesis by blast
  qed
  ultimately have "isUpperOrDigit CHR ''.''"
    using cls by (simp add: list_all_iff)
  then show False by (simp add: not_class_dot)
qed

lemma validateAddress_empty:
  "addressValid (validateAddress [] s) = None \<and> resolvedAddress (validateAddress [] s) = None"
  by (simp add: validateAddress_def)

lemma validateAddress_BNS:
  "BNS_DOMAIN_REGEX_test a \<Longrightarrow>
   addressValid (validateAddress a s) = Some True
   \<and> resolvedAddress (validateAddress a s) = Some mockResolvedAddress"
  by (simp add: validateAddress_def BNS_not_empty)

lemma validateAddress_STACKS:
  "STACKS_ADDRESS_REGEX_test a \<Longrightarrow>
   addressValid (validateAddress a s) = Some True \<and> resolvedAddress (validateAddress a s) = None"
  by (simp add: validateAddress_def STACKS_not_empty STACKS_not_BNS)

lemma validateAddress_other:
  "a \<noteq> [] \<Longrightarrow> \<not> BNS_DOMAIN_REGEX_test a \<Longrightarrow>
   addressValid (validateAddress a s) = Some (startsWith a ''SP'' \<and> length a = STACKS_ADDRESS_LENGTH)
   \<and> resolvedAddress (validateAddress a s) = None"
  using STACKS_startsWith [of a] by (auto simp: validateAddress_def)

lemma validateAddress_keeps:
  "recipient (validateAddress a s) = recipient s \<and> memo (validateAddress a s) = memo s
   \<and> showConfirmation (validateAddress a s) = showConfirmation s"
  by (simp add: validateAddress_def)

lemma validate_ok_iff:
  "fst (transfer_validate ub s) \<longleftrightarrow>
     recipient s \<noteq> [] \<and> addressValid s = Some True \<and> transfer_hasEnoughGas ub"
  by (simp add: transfer_validate_def Let_def)

lemma validate_snd:
  "recipient (snd (transfer_validate ub s)) = recipient s
   \<and> memo (snd (transfer_validate ub s)) = memo s
   \<and> resolvedAddress (snd (transfer_validate ub s)) = resolvedAddress s
   \<and> addressValid (snd (transfer_validate ub s)) = addressValid s
   \<and> showConfirmation (snd (transfer_validate ub s)) = showConfirmation s"
  by (simp add: transfer_validate_def Let_def)

lemma submit_rejected:
  assumes "fst (transfer_validate ub s)" "onTransfer (transferData nft s) = Rejected"
  shows "transfer_handleSubmit nft ub onTransfer s =
     ((snd (transfer_validate ub s))
        \<lparr>transfer_errors := [(''submit'', ''Failed to transfer NFT. Please try again.'')],
         showConfirmation := False, transfer_isSubmitting := False\<rparr>,
      [OnTransfer (transferData nft s)])"
  using assms by (cases "transfer_validate ub s") (auto simp: transfer_handleSubmit_def)

lemma submit_resolved:
  assumes "fst (transfer_validate ub s)" "onTransfer (transferData nft s) = Resolved"
  shows "transfer_handleSubmit nft ub onTransfer s =
     ((snd (transfer_validate ub s))\<lparr>transfer_isSubmitting := False\<rparr>,
      [OnTransfer (transferData nft s), TransferOnClose])"
  using assms by (cases "transfer_validate ub s") (auto simp: transfer_handleSubmit_def)


lemma handleContinue_ok:
  "fst (transfer_validate ub s) \<Longrightarrow>
   handleContinue ub s = (snd (transfer_validate ub s))\<lparr>showConfirmation := True\<rparr>"
  by (cases "transfer_validate ub s") (auto simp: handleContinue_def)


lemma flow_state:
  assumes r: "recipient s \<noteq> []" and v: "addressValid s = Some True"
    and g: "transfer_hasEnoughGas ub"
  shows "fst (transfer_validate ub s)"
    and "showConfirmation (handleContinue ub s)"
    and "fst (transfer_validate ub (handleContinue ub s))"
    and "recipient (handleContinue ub s) = recipient s"
    and "memo (handleContinue ub s) = memo s"
    and "resolvedAddress (handleContinue ub s) = resolvedAddress s"
proof -
  show ok: "fst (transfer_validate ub s)"
    using r v g by (simp add: validate_ok_iff)
  then have hc: "handleContinue ub s = (snd (transfer_validate ub s))\<lparr>showConfirmation := True\<rparr>"
    by (rule handleContinue_ok)
  show "showConfirmation (handleContinue ub s)" by (simp add: hc)
  show "recipient (handleContinue ub s) = recipient s" by (simp add: hc validate_snd)
  show "memo (handleContinue ub s) = memo s" by (simp add: hc validate_snd)
  show "resolvedAddress (handleContinue ub s) = resolvedAddress s" by (simp add: hc validate_snd)
  show "fst (transfer_validate ub (handleContinue ub s))"
    using r v g by (simp add: validate_ok_iff hc validate_snd)
qed

lemma validateAddress_start_resume:
  "validateAddress a s =
     (if snd (validateAddress_start a s) then validateAddress_resume (fst (validateAddress_start a s))
      else fst (validateAddress_start a s))"
  by (simp add: validateAddress_def validateAddress_start_def validateAddress_resume_def)



section \<open>Claims\<close>

text \<open>
  C9. In BurnNFTModal the burn button is disabled, and \<^verbatim>\<open>handleBurn\<close> calls nothing, for
  every confirmation text that is not equal to BURN up to case; while no submission is
  running, the button is enabled exactly when the text equals BURN up to case and the
  user's balance is at least the burn gas estimate, and exactly then \<^verbatim>\<open>handleBurn\<close>
  calls the burn action.
\<close>

theorem burn_enabled_iff_confirmed_and_gas:
  "(\<not> equalsIgnoreCase (confirmText s) ''BURN'' \<longrightarrow>
      burn_disabled loading userBalance s \<and> snd (handleBurn nft userBalance onBurn s) = [])
   \<and> (\<not> loading \<and> \<not> burn_isSubmitting s \<longrightarrow>
      (\<not> burn_disabled loading userBalance s \<longleftrightarrow>
         equalsIgnoreCase (confirmText s) ''BURN'' \<and> num_le BURN_GAS_ESTIMATE userBalance))
   \<and> (OnBurn (nft_id nft) (nft_tokenId nft) \<in> set (snd (handleBurn nft userBalance onBurn s)) \<longleftrightarrow>
         equalsIgnoreCase (confirmText s) ''BURN'' \<and> num_le BURN_GAS_ESTIMATE userBalance)"
  by (auto simp: burn_disabled_def handleBurn_def isConfirmed_iff burn_hasEnoughGas_def
      split: outcome.splits)

theorem burn_enabled_iff_confirmed_and_gas_witness:
  "\<not> equalsIgnoreCase ''burm'' ''BURN''
   \<and> burn_disabled False (Num 1) \<lparr>confirmText = ''burm'', burn_isSubmitting = False, burn_error = None\<rparr>
   \<and> equalsIgnoreCase ''bUrn'' ''BURN'' \<and> num_le BURN_GAS_ESTIMATE (Num 1)
   \<and> \<not> burn_disabled False (Num 1) \<lparr>confirmText = ''bUrn'', burn_isSubmitting = False, burn_error = None\<rparr>
   \<and> snd (handleBurn \<lparr>nft_id = ''nft-7'', nft_name = ''Punk'', nft_image = None,
                       nft_collection = ''punks'', nft_tokenId = Num 8\<rparr> (Num 1) (\<lambda>i t. Resolved)
        \<lparr>confirmText = ''bUrn'', burn_isSubmitting = False, burn_error = None\<rparr>)
     = [OnBurn ''nft-7'' (Num 8), BurnOnClose]"
proof -
  have a: "\<not> equalsIgnoreCase ''burm'' ''BURN''"
    by (simp add: equalsIgnoreCase_def toLowerChar_def)
  have b: "equalsIgnoreCase ''bUrn'' ''BURN''"
    by (simp add: equalsIgnoreCase_def toLowerChar_def)
  have c: "num_le BURN_GAS_ESTIMATE (Num 1)"
    by (simp add: BURN_GAS_ESTIMATE_value)
  note t1 = burn_enabled_iff_confirmed_and_gas [of
      "\<lparr>confirmText = ''burm'', burn_isSubmitting = False, burn_error = None\<rparr>" False "Num 1"]
  note t2 = burn_enabled_iff_confirmed_and_gas [of
      "\<lparr>confirmText = ''bUrn'', burn_isSubmitting = False, burn_error = None\<rparr>" False "Num 1"
      "\<lparr>nft_id = ''nft-7'', nft_name = ''Punk'', nft_image = None,
        nft_collection = ''punks'', nft_tokenId = Num 8\<rparr>" "\<lambda>i t. Resolved"]
  have d: "burn_disabled False (Num 1)
      \<lparr>confirmText = ''burm'', burn_isSubmitting = False, burn_error = None\<rparr>"
    using t1 a by simp
  have e: "\<not> burn_disabled False (Num 1)
      \<lparr>confirmText = ''bUrn'', burn_isSubmitting = False, burn_error = None\<rparr>"
    using t2 b c by simp
  have f: "snd (handleBurn \<lparr>nft_id = ''nft-7'', nft_name = ''Punk'', nft_image = None,
                       nft_collection = ''punks'', nft_tokenId = Num 8\<rparr> (Num 1) (\<lambda>i t. Resolved)
        \<lparr>confirmText = ''bUrn'', burn_isSubmitting = False, burn_error = None\<rparr>)
     = [OnBurn ''nft-7'' (Num 8), BurnOnClose]"
    using e by (simp add: handleBurn_def burn_disabled_def)
  show ?thesis using a b c d e f by simp
qed

text \<open>
  C2. Whatever the filters and the \<^verbatim>\<open>maxPrice\<close> prop are, \<^verbatim>\<open>clearAllFilters\<close> hands to
  \<^verbatim>\<open>onFiltersChange\<close> the price range from 0 to the default \<^verbatim>\<open>maxPrice\<close> (1000), no
  rarities, no statuses, no traits, currency STX and sort order recent, and it sets the
  two price text buffers to the text 0 and to the text of the \<^verbatim>\<open>maxPrice\<close> prop.
\<close>

theorem clearAllFilters_defaults:
  "fst (clearAllFilters toString props l) =
     \<lparr>priceRange = (Num 0, maxPrice_default), rarities = [], statuses = [], traits = [],
      currency = STX, sortBy = ''recent''\<rparr>
   \<and> localPriceMin (snd (clearAllFilters toString props l)) = ''0''
   \<and> localPriceMax (snd (clearAllFilters toString props l)) = toString (maxPrice props)"
  by (simp add: clearAllFilters_def DEFAULT_PRICE_RANGE_def maxPrice_default_def)

text \<open>
  C7. The claim is for every trait type. For the trait type constructor, which is no key of
  the sample filters, \<^verbatim>\<open>toggleTraitValue\<close> throws a TypeError and emits no state, so
  nothing is toggled and no second toggle can restore anything; the same happens for a
  trait type whose key a toggle has just removed, when its name is that of an inherited
  member.
\<close>

theorem toggleTraitValue_inherited_name_throws:
  "map_of (traits (filters sampleFilterProps)) ''constructor'' = None
   \<and> toggleTraitValue sampleFilterProps ''constructor'' ''Object'' = Inl TypeError
   \<and> toggleTraitValue sampleInheritedProps ''toString'' ''x'' = Inr sampleInheritedToggled
   \<and> traits sampleInheritedToggled = []
   \<and> toggleTraitValue (sampleInheritedProps\<lparr>filters := sampleInheritedToggled\<rparr>) ''toString'' ''x''
       = Inl TypeError"
  by (simp add: toggleTraitValue_def sampleFilterProps_def sampleInheritedProps_def
      sampleInheritedToggled_def updateFilters_def Object_prototype_members_def)

text \<open>
  C8 (as amended). For every pair of typed min/max price texts and every \<^verbatim>\<open>maxPrice\<close> prop
  that is not NaN, committing them by blur or by the Apply button emits the filters with
  only the price range replaced, by the two committed bounds with the smaller one first
  (the min bound is the parsed min text, or 0 when that is NaN or zero; the max bound is
  the parsed max text, or \<^verbatim>\<open>maxPrice\<close> likewise): so priceRange[0] <= priceRange[1], and
  two texts that parse to non-zero numbers give the same range in either order.
\<close>

theorem applyPriceRange_ordered:
  "maxPrice props \<noteq> NaN \<Longrightarrow>
   applyPriceRange parseFloat props l =
     (filters props)\<lparr>priceRange :=
        (if num_le (num_or (parseFloat (localPriceMin l)) (Num 0))
                   (num_or (parseFloat (localPriceMax l)) (maxPrice props))
         then (num_or (parseFloat (localPriceMin l)) (Num 0),
               num_or (parseFloat (localPriceMax l)) (maxPrice props))
         else (num_or (parseFloat (localPriceMax l)) (maxPrice props),
               num_or (parseFloat (localPriceMin l)) (Num 0)))\<rparr>
   \<and> num_le (fst (priceRange (applyPriceRange parseFloat props l)))
             (snd (priceRange (applyPriceRange parseFloat props l)))
   \<and> (truthy (parseFloat (localPriceMin l)) \<and> truthy (parseFloat (localPriceMax l)) \<longrightarrow>
        applyPriceRange parseFloat props
            (l\<lparr>localPriceMin := localPriceMax l, localPriceMax := localPriceMin l\<rparr>)
          = applyPriceRange parseFloat props l)"
proof (intro conjI impI)
  assume m: "maxPrice props \<noteq> NaN"
  let ?a = "num_or (parseFloat (localPriceMin l)) (Num 0)"
  let ?b = "num_or (parseFloat (localPriceMax l)) (maxPrice props)"
  have a: "?a \<noteq> NaN" by (simp add: num_or_not_NaN)
  have b: "?b \<noteq> NaN" using m by (simp add: num_or_not_NaN)
  have e: "applyPriceRange parseFloat props l =
      (filters props)\<lparr>priceRange := (Math_min ?a ?b, Math_max ?a ?b)\<rparr>"
    by (simp add: applyPriceRange_def updateFilters_def Let_def)
  show "applyPriceRange parseFloat props l =
     (filters props)\<lparr>priceRange := (if num_le ?a ?b then (?a, ?b) else (?b, ?a))\<rparr>"
    unfolding e using Math_min_max_pair [OF a b] by simp
  show "num_le (fst (priceRange (applyPriceRange parseFloat props l)))
             (snd (priceRange (applyPriceRange parseFloat props l)))"
    unfolding e using Math_min_le_max [OF a b] by simp
next
  assume t: "truthy (parseFloat (localPriceMin l)) \<and> truthy (parseFloat (localPriceMax l))"
  then show "applyPriceRange parseFloat props
            (l\<lparr>localPriceMin := localPriceMax l, localPriceMax := localPriceMin l\<rparr>)
          = applyPriceRange parseFloat props l"
    by (simp add: applyPriceRange_def updateFilters_def Let_def num_or_truthy
        Math_min_commute [of "parseFloat (localPriceMax l)"]
        Math_max_commute [of "parseFloat (localPriceMax l)"])
qed

theorem applyPriceRange_ordered_witness:
  "maxPrice sampleFilterProps \<noteq> NaN
   \<and> truthy (sampleParseFloat ''50'') \<and> truthy (sampleParseFloat ''10'')
   \<and> applyPriceRange sampleParseFloat sampleFilterProps
        \<lparr>localPriceMin = ''50'', localPriceMax = ''10''\<rparr>
       = (filters sampleFilterProps)\<lparr>priceRange := (Num 10, Num 50)\<rparr>
   \<and> applyPriceRange sampleParseFloat sampleFilterProps
        \<lparr>localPriceMin = ''10'', localPriceMax = ''50''\<rparr>
       = (filters sampleFilterProps)\<lparr>priceRange := (Num 10, Num 50)\<rparr>
   \<and> num_le (Num 10) (Num 50)"
proof -
  let ?l = "\<lparr>localPriceMin = ''50'', localPriceMax = ''10''\<rparr>"
  have a: "maxPrice sampleFilterProps \<noteq> NaN"
    by (simp add: sampleFilterProps_def)
  have p: "sampleParseFloat ''50'' = Num 50 \<and> sampleParseFloat ''10'' = Num 10"
    by (simp add: sampleParseFloat_def)
  have m: "maxPrice sampleFilterProps = Num 1000"
    by (simp add: sampleFilterProps_def)
  note t = applyPriceRange_ordered [OF a, of sampleParseFloat ?l]
  have b: "applyPriceRange sampleParseFloat sampleFilterProps ?l
      = (filters sampleFilterProps)\<lparr>priceRange := (Num 10, Num 50)\<rparr>"
    using t p by (simp add: num_or_def)
  have c: "applyPriceRange sampleParseFloat sampleFilterProps
        \<lparr>localPriceMin = ''10'', localPriceMax = ''50''\<rparr>
      = applyPriceRange sampleParseFloat sampleFilterProps ?l"
    using t p by simp
  show ?thesis using a p b c by simp
qed

text \<open>
  C8 as stated fails for a \<^verbatim>\<open>maxPrice\<close> prop that is NaN: with two empty texts the range
  emitted is NaN to NaN, and NaN <= NaN is false.
\<close>

theorem applyPriceRange_NaN_counterexample:
  "priceRange (applyPriceRange sampleParseFloat (sampleFilterProps\<lparr>maxPrice := NaN\<rparr>)
      \<lparr>localPriceMin = [], localPriceMax = []\<rparr>) = (NaN, NaN)
   \<and> \<not> num_le
        (fst (priceRange (applyPriceRange sampleParseFloat (sampleFilterProps\<lparr>maxPrice := NaN\<rparr>)
           \<lparr>localPriceMin = [], localPriceMax = []\<rparr>)))
        (snd (priceRange (applyPriceRange sampleParseFloat (sampleFilterProps\<lparr>maxPrice := NaN\<rparr>)
           \<lparr>localPriceMin = [], localPriceMax = []\<rparr>)))"
  by (simp add: applyPriceRange_def updateFilters_def sampleParseFloat_def num_or_def
      Math_min_def Math_max_def sampleFilterProps_def)

text \<open>
  C1 (as amended). \<^verbatim>\<open>validateAddress\<close> gives every recipient text one verdict: the empty
  text none; a text that matches the BNS domain pattern valid, with the resolved address; a
  text that matches the direct Stacks-address pattern valid with no resolved address, and
  so does every other text that does not match the domain pattern, starts with SP and
  has length 41; every remaining text invalid with no resolved address.
\<close>

theorem validateAddress_verdicts:
  "(address = [] \<longrightarrow>
      addressValid (validateAddress address s) = None
      \<and> resolvedAddress (validateAddress address s) = None)
   \<and> (BNS_DOMAIN_REGEX_test address \<longrightarrow>
      addressValid (validateAddress address s) = Some True
      \<and> resolvedAddress (validateAddress address s) = Some mockResolvedAddress)
   \<and> (STACKS_ADDRESS_REGEX_test address \<longrightarrow>
      addressValid (validateAddress address s) = Some True
      \<and> resolvedAddress (validateAddress address s) = None)
   \<and> (address \<noteq> [] \<and> \<not> BNS_DOMAIN_REGEX_test address \<longrightarrow>
      addressValid (validateAddress address s)
        = Some (startsWith address ''SP'' \<and> length address = STACKS_ADDRESS_LENGTH)
      \<and> resolvedAddress (validateAddress address s) = None)"
  using validateAddress_empty [of s] validateAddress_BNS [of address s]
    validateAddress_STACKS [of address s] validateAddress_other [of address s]
  by auto

theorem validateAddress_verdicts_witness:
  "BNS_DOMAIN_REGEX_test ''Alice-1.BTC''
   \<and> addressValid (validateAddress ''Alice-1.BTC'' sampleTransfer) = Some True
   \<and> resolvedAddress (validateAddress ''Alice-1.BTC'' sampleTransfer) = Some mockResolvedAddress
   \<and> STACKS_ADDRESS_REGEX_test sampleAddress
   \<and> addressValid (validateAddress sampleAddress sampleTransfer) = Some True
   \<and> resolvedAddress (validateAddress sampleAddress sampleTransfer) = None
   \<and> ''SP123'' \<noteq> [] \<and> \<not> BNS_DOMAIN_REGEX_test ''SP123''
   \<and> addressValid (validateAddress ''SP123'' sampleTransfer) = Some False
   \<and> addressValid (validateAddress [] sampleTransfer) = None"
proof -
  have a: "BNS_DOMAIN_REGEX_test ''Alice-1.BTC''"
    by (rule sample_domain_match)
  have b: "STACKS_ADDRESS_REGEX_test sampleAddress"
    by (rule sampleAddress_match)
  have c: "\<not> BNS_DOMAIN_REGEX_test ''SP123''"
    by code_simp
  have d: "\<not> (startsWith ''SP123'' ''SP'' \<and> length ''SP123'' = STACKS_ADDRESS_LENGTH)"
    by (simp add: STACKS_ADDRESS_LENGTH_def)
  note t1 = validateAddress_verdicts [of "''Alice-1.BTC''" sampleTransfer]
  note t2 = validateAddress_verdicts [of sampleAddress sampleTransfer]
  note t3 = validateAddress_verdicts [of "''SP123''" sampleTransfer]
  note t4 = validateAddress_verdicts [of "[]" sampleTransfer]
  show ?thesis using a b c d t1 t2 t3 t4 by simp
qed

text \<open>
  C1 as stated fails: a 41-character text that starts with SP and goes on in lower-case
  letters matches neither pattern, and is classified valid.
\<close>

theorem validateAddress_lowercase_counterexample:
  "sampleLowerAddress \<noteq> []
   \<and> \<not> BNS_DOMAIN_REGEX_test sampleLowerAddress
   \<and> \<not> STACKS_ADDRESS_REGEX_test sampleLowerAddress
   \<and> addressValid (validateAddress sampleLowerAddress sampleTransfer) = Some True"
proof -
  have "startsWith sampleLowerAddress ''SP'' \<and> length sampleLowerAddress = STACKS_ADDRESS_LENGTH"
    by (simp add: sampleLowerAddress_def startsWith_def STACKS_ADDRESS_LENGTH_def)
  moreover have "sampleLowerAddress \<noteq> []"
    by (simp add: sampleLowerAddress_def)
  ultimately show ?thesis
    using sampleLowerAddress_no_match by (simp add: validateAddress_def)
qed



text \<open>
  C4 (as amended). In useCollection the page size is 24 and \<^verbatim>\<open>hasMore\<close> is a state cell of
  its own. It is true in the initial state. \<^verbatim>\<open>fetchMore\<close>, \<^verbatim>\<open>setPage\<close>,
  \<^verbatim>\<open>fetchCollection\<close> and the start of a fetch change the page, the total count or the
  loading flag and leave it as it was. When the fetch issued by the page effect completes
  (the effect runs when the page or the total count has changed, and fetches once the total
  count is positive), \<^verbatim>\<open>hasMore\<close> is set to page * 24 < totalCount for the page and the
  total count of the render that ran the effect; so the equation holds in the state after
  that completion when neither has changed in between.
\<close>

theorem hasMore_after_fetch:
  "(0 < totalCount r \<longrightarrow>
      hasMore (pageEffect generateMockNFTs r s) = (page r * PAGE_SIZE < totalCount r))
   \<and> (0 < totalCount r \<and> page s = page r \<and> totalCount s = totalCount r \<longrightarrow>
        hasMore (pageEffect generateMockNFTs r s)
          = (page (pageEffect generateMockNFTs r s) * PAGE_SIZE
               < totalCount (pageEffect generateMockNFTs r s)))
   \<and> hasMore (fetchMore r s) = hasMore s
   \<and> hasMore (setPage p s) = hasMore s
   \<and> hasMore (fetchCollection mock totalSupply s) = hasMore s
   \<and> hasMore (fetchNFTs_start s) = hasMore s
   \<and> hasMore (useCollection_init :: ('c, 'n) CollectionState)
   \<and> PAGE_SIZE = 24"
proof -
  have a: "0 < totalCount r \<longrightarrow>
      hasMore (pageEffect generateMockNFTs r s) = (page r * PAGE_SIZE < totalCount r)"
    by (simp add: pageEffect_def fetchNFTs_hasMore)
  have b: "0 < totalCount r \<and> page s = page r \<and> totalCount s = totalCount r \<longrightarrow>
        hasMore (pageEffect generateMockNFTs r s)
          = (page (pageEffect generateMockNFTs r s) * PAGE_SIZE
               < totalCount (pageEffect generateMockNFTs r s))"
    by (simp add: pageEffect_def fetchNFTs_hasMore fetchNFTs_page_totalCount)
  have c: "hasMore (fetchMore r s) = hasMore s"
    by (simp add: fetchMore_def)
  have d: "hasMore (setPage p s) = hasMore s"
    by (simp add: setPage_def)
  have e: "hasMore (fetchCollection mock totalSupply s) = hasMore s"
    by (simp add: fetchCollection_def)
  have f: "hasMore (fetchNFTs_start s) = hasMore s"
    by (simp add: fetchNFTs_start_def)
  have g: "hasMore (useCollection_init :: ('c, 'n) CollectionState)"
    by (simp add: useCollection_init_def)
  have h: "PAGE_SIZE = 24"
    by (simp add: PAGE_SIZE_def)
  show ?thesis using a b c d e f g h by blast
qed

theorem hasMore_after_fetch_witness:
  "0 < totalCount sampleLoaded
   \<and> page (fetchNFTs_start sampleLoaded) = page sampleLoaded
   \<and> totalCount (fetchNFTs_start sampleLoaded) = totalCount sampleLoaded
   \<and> hasMore (pageEffect sampleGenerate sampleLoaded (fetchNFTs_start sampleLoaded))
   \<and> page (pageEffect sampleGenerate sampleLoaded (fetchNFTs_start sampleLoaded)) = 1
   \<and> totalCount (pageEffect sampleGenerate sampleLoaded (fetchNFTs_start sampleLoaded)) = 10000
   \<and> length (nfts (pageEffect sampleGenerate sampleLoaded (fetchNFTs_start sampleLoaded))) = 24"
proof -
  let ?s = "fetchNFTs_start sampleLoaded"
  have a: "0 < totalCount sampleLoaded"
    by (simp add: sampleLoaded_def fetchCollection_def)
  have k: "page ?s = page sampleLoaded \<and> totalCount ?s = totalCount sampleLoaded"
    by (simp add: fetchNFTs_start_def)
  have b: "page (pageEffect sampleGenerate sampleLoaded ?s) = 1
      \<and> totalCount (pageEffect sampleGenerate sampleLoaded ?s) = 10000
      \<and> length (nfts (pageEffect sampleGenerate sampleLoaded ?s)) = 24"
    by (simp add: pageEffect_def fetchNFTs_def fetchNFTs_start_def sampleLoaded_def
        sampleInitial_def fetchCollection_def useCollection_init_def sampleGenerate_def
        PAGE_SIZE_def Let_def)
  have c: "(1::int) * PAGE_SIZE < 10000"
    by (simp add: PAGE_SIZE_def)
  from hasMore_after_fetch [of sampleLoaded sampleGenerate ?s] a k
  have "hasMore (pageEffect sampleGenerate sampleLoaded ?s)
      = (page (pageEffect sampleGenerate sampleLoaded ?s) * PAGE_SIZE
           < totalCount (pageEffect sampleGenerate sampleLoaded ?s))"
    by blast
  with b c have "hasMore (pageEffect sampleGenerate sampleLoaded ?s)"
    by simp
  with a k b show ?thesis by blast
qed

text \<open>
  C4 as stated fails in the initial state: \<^verbatim>\<open>hasMore\<close> is true there, the page is 1 and
  the total count 0.
\<close>

theorem hasMore_initial_counterexample:
  "hasMore sampleInitial \<noteq> (page sampleInitial * PAGE_SIZE < totalCount sampleInitial)"
  by (simp add: sampleInitial_def useCollection_init_def PAGE_SIZE_def)

text \<open>
  C5. In TransferNFTModal, when \<^verbatim>\<open>handleSubmit\<close> has called \<^verbatim>\<open>onTransfer\<close> and the call
  fails, the modal is left open on the input view (\<^verbatim>\<open>showConfirmation\<close> false, \<^verbatim>\<open>onClose\<close>
  not called) with the submission error as its only error and with the recipient and the
  memo unchanged; when the call succeeds, \<^verbatim>\<open>onClose\<close> is called, and the reset that runs
  on the next opening clears every field.
\<close>

theorem transfer_failure_returns_to_input:
  "(fst (transfer_validate ub s) \<and> onTransfer (transferData nft s) = Rejected \<longrightarrow>
      snd (transfer_handleSubmit nft ub onTransfer s) = [OnTransfer (transferData nft s)]
      \<and> \<not> showConfirmation (fst (transfer_handleSubmit nft ub onTransfer s))
      \<and> transfer_errors (fst (transfer_handleSubmit nft ub onTransfer s))
            = [(''submit'', ''Failed to transfer NFT. Please try again.'')]
      \<and> recipient (fst (transfer_handleSubmit nft ub onTransfer s)) = recipient s
      \<and> memo (fst (transfer_handleSubmit nft ub onTransfer s)) = memo s
      \<and> \<not> transfer_isSubmitting (fst (transfer_handleSubmit nft ub onTransfer s)))
   \<and> (fst (transfer_validate ub s) \<and> onTransfer (transferData nft s) = Resolved \<longrightarrow>
      snd (transfer_handleSubmit nft ub onTransfer s)
         = [OnTransfer (transferData nft s), TransferOnClose]
      \<and> recipient (resetOnOpen (fst (transfer_handleSubmit nft ub onTransfer s))) = []
      \<and> memo (resetOnOpen (fst (transfer_handleSubmit nft ub onTransfer s))) = []
      \<and> addressValid (resetOnOpen (fst (transfer_handleSubmit nft ub onTransfer s))) = None
      \<and> resolvedAddress (resetOnOpen (fst (transfer_handleSubmit nft ub onTransfer s))) = None
      \<and> transfer_errors (resetOnOpen (fst (transfer_handleSubmit nft ub onTransfer s))) = []
      \<and> \<not> showConfirmation (resetOnOpen (fst (transfer_handleSubmit nft ub onTransfer s))))"
proof (intro conjI impI)
  assume a: "fst (transfer_validate ub s) \<and> onTransfer (transferData nft s) = Rejected"
  then have e: "transfer_handleSubmit nft ub onTransfer s =
     ((snd (transfer_validate ub s))
        \<lparr>transfer_errors := [(''submit'', ''Failed to transfer NFT. Please try again.'')],
         showConfirmation := False, transfer_isSubmitting := False\<rparr>,
      [OnTransfer (transferData nft s)])"
    by (simp add: submit_rejected)
  show "snd (transfer_handleSubmit nft ub onTransfer s) = [OnTransfer (transferData nft s)]"
    by (simp add: e)
  show "\<not> showConfirmation (fst (transfer_handleSubmit nft ub onTransfer s))"
    by (simp add: e)
  show "transfer_errors (fst (transfer_handleSubmit nft ub onTransfer s))
            = [(''submit'', ''Failed to transfer NFT. Please try again.'')]"
    by (simp add: e)
  show "recipient (fst (transfer_handleSubmit nft ub onTransfer s)) = recipient s"
    by (simp add: e validate_snd)
  show "memo (fst (transfer_handleSubmit nft ub onTransfer s)) = memo s"
    by (simp add: e validate_snd)
  show "\<not> transfer_isSubmitting (fst (transfer_handleSubmit nft ub onTransfer s))"
    by (simp add: e)
next
  assume a: "fst (transfer_validate ub s) \<and> onTransfer (transferData nft s) = Resolved"
  then show "snd (transfer_handleSubmit nft ub onTransfer s)
         = [OnTransfer (transferData nft s), TransferOnClose]"
    by (simp add: submit_resolved)
qed (simp_all add: resetOnOpen_def)

theorem transfer_failure_returns_to_input_witness:
  "fst (transfer_validate (Num 1) (handleContinue (Num 1)
          (validateAddress sampleAddress (setRecipient sampleAddress sampleTransfer))))
   \<and> showConfirmation (handleContinue (Num 1)
          (validateAddress sampleAddress (setRecipient sampleAddress sampleTransfer)))
   \<and> \<not> showConfirmation (fst (transfer_handleSubmit sampleNft (Num 1) (\<lambda>d. Rejected)
          (handleContinue (Num 1) (validateAddress sampleAddress (setRecipient sampleAddress sampleTransfer)))))
   \<and> recipient (fst (transfer_handleSubmit sampleNft (Num 1) (\<lambda>d. Rejected)
          (handleContinue (Num 1) (validateAddress sampleAddress (setRecipient sampleAddress sampleTransfer)))))
        = sampleAddress
   \<and> memo (fst (transfer_handleSubmit sampleNft (Num 1) (\<lambda>d. Rejected)
          (handleContinue (Num 1) (validateAddress sampleAddress (setRecipient sampleAddress sampleTransfer)))))
        = '' gift ''
   \<and> recipient (resetOnOpen (fst (transfer_handleSubmit sampleNft (Num 1) (\<lambda>d. Resolved)
          (handleContinue (Num 1) (validateAddress sampleAddress (setRecipient sampleAddress sampleTransfer))))))
        = []"
proof -
  let ?v = "validateAddress sampleAddress (setRecipient sampleAddress sampleTransfer)"
  let ?s = "handleContinue (Num 1) ?v"
  have g: "transfer_hasEnoughGas (Num 1)"
    by (simp add: transfer_hasEnoughGas_def TRANSFER_GAS_ESTIMATE_value)
  have rv: "recipient ?v = sampleAddress \<and> memo ?v = '' gift ''"
    by (simp add: validateAddress_keeps setRecipient_def sampleTransfer_def)
  have r: "recipient ?v \<noteq> []"
    using rv by (simp add: sampleAddress_def)
  have v: "addressValid ?v = Some True"
    using sampleAddress_match by (simp add: validateAddress_STACKS)
  have ok: "fst (transfer_validate (Num 1) ?s)"
    using r v g by (rule flow_state(3))
  have sc: "showConfirmation ?s"
    using r v g by (rule flow_state(2))
  have rc: "recipient ?s = sampleAddress"
    using flow_state(4) [OF r v g] rv by simp
  have mm: "memo ?s = '' gift ''"
    using flow_state(5) [OF r v g] rv by simp
  note t1 = transfer_failure_returns_to_input [of "Num 1" ?s "\<lambda>d. Rejected" sampleNft]
  note t2 = transfer_failure_returns_to_input [of "Num 1" ?s "\<lambda>d. Resolved" sampleNft]
  show ?thesis using ok sc rc mm t1 t2 by simp
qed




text \<open>
  C10. In MakeOfferModal the balance check passes exactly when the offer amount is at most
  the STX balance or at most the WSTX balance, each taken alone. An entered positive amount
  that fails the check, as every amount above both balances does, is rejected by
  \<^verbatim>\<open>validate\<close> with the insufficient-balance error, whose text reports the sum of the two
  balances, and \<^verbatim>\<open>handleSubmit\<close> then calls nothing; whether the amount exceeds that sum
  plays no part.
\<close>

theorem offer_balance_checked_separately:
  "(hasEnoughBalance parseFloat userBalance wstxBalance s \<longleftrightarrow>
      num_le (offerAmount parseFloat s) userBalance \<or> num_le (offerAmount parseFloat s) wstxBalance)
   \<and> (num_lt userBalance (offerAmount parseFloat s) \<and> num_lt wstxBalance (offerAmount parseFloat s)
        \<longrightarrow> \<not> hasEnoughBalance parseFloat userBalance wstxBalance s)
   \<and> (amount s \<noteq> [] \<and> num_lt (Num 0) (offerAmount parseFloat s)
        \<and> \<not> hasEnoughBalance parseFloat userBalance wstxBalance s \<longrightarrow>
        offer_validate parseFloat toFixed nft userBalance wstxBalance s =
          (False, s\<lparr>offer_errors := [(''amount'', ''Insufficient balance. You have ''
                      @ toFixed (num_add userBalance wstxBalance) 4 @ '' STX'')]\<rparr>)
        \<and> snd (offer_handleSubmit parseFloat toFixed nft userBalance wstxBalance onOffer s) = [])"
proof (intro conjI impI)
  show "hasEnoughBalance parseFloat userBalance wstxBalance s \<longleftrightarrow>
      num_le (offerAmount parseFloat s) userBalance \<or> num_le (offerAmount parseFloat s) wstxBalance"
    by (simp add: hasEnoughBalance_def)
next
  assume "num_lt userBalance (offerAmount parseFloat s) \<and> num_lt wstxBalance (offerAmount parseFloat s)"
  then show "\<not> hasEnoughBalance parseFloat userBalance wstxBalance s"
    by (simp add: hasEnoughBalance_def num_lt_not_le)
next
  assume h: "amount s \<noteq> [] \<and> num_lt (Num 0) (offerAmount parseFloat s)
        \<and> \<not> hasEnoughBalance parseFloat userBalance wstxBalance s"
  then have p: "\<not> num_le (offerAmount parseFloat s) (Num 0)"
    by (simp add: num_lt_not_le)
  show v: "offer_validate parseFloat toFixed nft userBalance wstxBalance s =
          (False, s\<lparr>offer_errors := [(''amount'', ''Insufficient balance. You have ''
                      @ toFixed (num_add userBalance wstxBalance) 4 @ '' STX'')]\<rparr>)"
    using h p by (simp add: offer_validate_def totalBalance_def)
  show "snd (offer_handleSubmit parseFloat toFixed nft userBalance wstxBalance onOffer s) = []"
    by (simp add: offer_handleSubmit_def v)
qed

theorem offer_balance_checked_separately_witness:
  "amount sampleOffer \<noteq> [] \<and> offerAmount sampleParseFloat sampleOffer = Num 10
   \<and> num_lt (Num 6) (Num 10)
   \<and> \<not> hasEnoughBalance sampleParseFloat (Num 6) (Num 6) sampleOffer
   \<and> num_le (offerAmount sampleParseFloat sampleOffer) (num_add (Num 6) (Num 6))
   \<and> offer_validate sampleParseFloat sampleToFixed sampleOfferNft (Num 6) (Num 6) sampleOffer =
       (False, sampleOffer\<lparr>offer_errors :=
          [(''amount'', ''Insufficient balance. You have 12.0000 STX'')]\<rparr>)
   \<and> snd (offer_handleSubmit sampleParseFloat sampleToFixed sampleOfferNft (Num 6) (Num 6)
        (\<lambda>d. Resolved) sampleOffer) = []"
proof -
  have a: "amount sampleOffer \<noteq> []"
    by (simp add: sampleOffer_def)
  have b: "offerAmount sampleParseFloat sampleOffer = Num 10"
    by (simp add: offerAmount_def sampleOffer_def sampleParseFloat_def num_or_def)
  have c: "num_add (Num 6) (Num 6) = Num 12"
    using total_6_6 by (simp add: totalBalance_def)
  note t = offer_balance_checked_separately
      [of sampleParseFloat "Num 6" "Num 6" sampleOffer sampleToFixed sampleOfferNft "\<lambda>d. Resolved"]
  show ?thesis
    using a b c t by (simp add: sampleToFixed_def)
qed

end
